theory Spec2Isabelle
  imports Main
begin

section \<open>Python values used by the application\<close>

text \<open>
  The application keeps its persistent data in JSON files and receives JSON from the
  Gitea server. A decoded JSON value is a Python \<^verbatim>\<open>None\<close>, \<^verbatim>\<open>bool\<close>, \<^verbatim>\<open>int\<close>,
  \<^verbatim>\<open>str\<close>, \<^verbatim>\<open>list\<close> or \<^verbatim>\<open>dict\<close> with string keys. A Python dictionary keeps its keys
  in insertion order and holds each key once, so it is an association list here.
  Floating-point numbers do not occur in the data the application writes and are left out.
\<close>

datatype json =
    JNull
  | JBool bool
  | JInt int
  | JStr string
  | JArr "json list"
  | JObj "(string \<times> json) list"

type_synonym dict = "(string \<times> json) list"

text \<open>\<^verbatim>\<open>k in d\<close> for a dictionary.\<close>

definition has_key :: "dict \<Rightarrow> string \<Rightarrow> bool" where
  "has_key d k = (k \<in> set (map fst d))"

text \<open>\<^verbatim>\<open>d.get(k, default)\<close>; \<^verbatim>\<open>d.get(k)\<close> is \<open>dict_get d k JNull\<close>.\<close>

definition dict_get :: "dict \<Rightarrow> string \<Rightarrow> json \<Rightarrow> json" where
  "dict_get d k dflt = (case map_of d k of None \<Rightarrow> dflt | Some v \<Rightarrow> v)"

text \<open>\<^verbatim>\<open>d[k] = v\<close>: an existing key keeps its position, a new key goes to the end.\<close>

fun dict_set :: "dict \<Rightarrow> string \<Rightarrow> json \<Rightarrow> dict" where
  "dict_set [] k v = [(k, v)]"
| "dict_set (p # ps) k v = (if fst p = k then (k, v) # ps else p # dict_set ps k v)"

text \<open>
  An exception is its class, as far as the handlers of the application tell classes apart,
  and the text \<^verbatim>\<open>str(e)\<close>. \<open>SSLError\<close> is a subclass of \<open>RequestException\<close> in the
  HTTP library: a handler for the latter catches both.
\<close>

datatype exn_class = SSLError | RequestException | OtherException

record exn =
  cls :: exn_class
  msg :: string

definition raise_other :: "string \<Rightarrow> exn" where
  "raise_other m = \<lparr>cls = OtherException, msg = m\<rparr>"

definition is_request_exception :: "exn \<Rightarrow> bool" where
  "is_request_exception e = (cls e = SSLError \<or> cls e = RequestException)"

text \<open>
  Exceptions of the Python runtime that the application does not name: their text is
  abbreviated to the class name.
\<close>

definition attribute_error :: exn where
  "attribute_error = raise_other ''AttributeError''"

definition type_error :: exn where
  "type_error = raise_other ''TypeError''"

definition key_error :: exn where
  "key_error = raise_other ''KeyError''"

subsection \<open>String methods\<close>

text \<open>
  A string is a list of characters, and a character is a code point below 256: texts
  with code points above the Latin-1 range are not modelled.

  \<^verbatim>\<open>str.strip()\<close> removes leading and trailing whitespace. The characters for which
  \<^verbatim>\<open>str.isspace()\<close> holds are, below 256: tab, line feed, vertical tab, form feed,
  carriage return, the four separators 28 to 31, the space, the next-line control 133
  and the no-break space 160.
\<close>

definition is_space :: "char \<Rightarrow> bool" where
  "is_space c = (of_char c \<in> {9, 10, 11, 12, 13, 28, 29, 30, 31, 32, 133, 160 :: nat})"

definition strip :: "string \<Rightarrow> string" where
  "strip s = rev (dropWhile is_space (rev (dropWhile is_space s)))"

text \<open>\<^verbatim>\<open>s.rstrip('/')\<close>.\<close>

definition rstrip_slash :: "string \<Rightarrow> string" where
  "rstrip_slash s = rev (dropWhile (\<lambda>c. c = CHR ''/'') (rev s))"

definition startswith :: "string \<Rightarrow> string \<Rightarrow> bool" where
  "startswith s p = (take (length p) s = p)"

text \<open>\<^verbatim>\<open>p in s\<close> for two strings: \<open>p\<close> occurs in \<open>s\<close> as a contiguous substring.\<close>

fun contains :: "string \<Rightarrow> string \<Rightarrow> bool" where
  "contains [] p = (p = [])"
| "contains (c # s) p = (startswith (c # s) p \<or> contains s p)"

text \<open>
  \<^verbatim>\<open>str.lower()\<close>: below 256 the letters with a lower-case form are A to Z (65 to 90) and
  the Latin-1 capitals 192 to 222 without the multiplication sign 215; the lower-case
  form is 32 places further.
\<close>

definition lower_char :: "char \<Rightarrow> char" where
  "lower_char c =
     (let n = (of_char c :: nat)
      in if (65 \<le> n \<and> n \<le> 90) \<or> (192 \<le> n \<and> n \<le> 222 \<and> n \<noteq> 215) then char_of (n + 32) else c)"

definition lower :: "string \<Rightarrow> string" where
  "lower s = map lower_char s"

text \<open>
  The server URL is normalised in the same way wherever it is used: a scheme is added
  when there is none, and trailing slashes are removed.
  \<^verbatim>\<open>
  if not server.startswith(('http://', 'https://')):
      server = f"https://{server}"
  server = server.rstrip('/')
  \<close>
\<close>

definition normalise_server :: "string \<Rightarrow> string" where
  "normalise_server server =
     rstrip_slash
       (if \<not> (startswith server ''http://'' \<or> startswith server ''https://'')
        then ''https://'' @ server else server)"

section \<open>The API settings file (api\_config.py)\<close>

text \<open>
  A JSON file on disk is absent, or present with content that \<^verbatim>\<open>json.load\<close> rejects, or
  present with a text that \<^verbatim>\<open>json.load\<close> decodes: \<open>Content v\<close> is a file from which
  \<^verbatim>\<open>json.load\<close> returns \<open>v\<close>. Reading the file and writing to the disk are taken to
  succeed.
\<close>

datatype json_file = Absent | Unreadable | Content json

subsection \<open>Writing a Python value as JSON\<close>

text \<open>
  \<^verbatim>\<open>json.dump\<close> takes more values than \<^verbatim>\<open>json.load\<close> returns: the keys of a dictionary may
  be strings, integers, booleans or \<^verbatim>\<open>None\<close>, and a tuple is accepted beside a list.
  Floating-point numbers are left out here as well; a value of another type makes
  \<^verbatim>\<open>json.dump\<close> raise and is not a value of this type.
\<close>

datatype key = KStr string | KInt int | KBool bool | KNone

datatype py =
    PNone
  | PBool bool
  | PInt int
  | PStr string
  | PList "py list"
  | PTuple "py list"
  | PDict "(key \<times> py) list"

text \<open>A decoded JSON value is a Python value; this is the value it is.\<close>

fun py_of :: "json \<Rightarrow> py" where
  "py_of JNull = PNone"
| "py_of (JBool b) = PBool b"
| "py_of (JInt i) = PInt i"
| "py_of (JStr s) = PStr s"
| "py_of (JArr xs) = PList (map py_of xs)"
| "py_of (JObj d) = PDict (map (\<lambda>(k, v). (KStr k, py_of v)) d)"

text \<open>
  The values that \<^verbatim>\<open>json.load\<close> can return: no tuple, and strings as the keys of every
  dictionary.
\<close>

fun is_str :: "key \<Rightarrow> bool" where
  "is_str (KStr s) = True"
| "is_str k = False"



text \<open>Decimal digits of a number: \<^verbatim>\<open>str(n)\<close>.\<close>

fun str_nat :: "nat \<Rightarrow> string" where
  "str_nat n = (if n < 10 then [char_of (48 + n)] else str_nat (n div 10) @ [char_of (48 + n mod 10)])"

declare str_nat.simps [simp del]

definition str_int :: "int \<Rightarrow> string" where
  "str_int i = (if i < 0 then CHR ''-'' # str_nat (nat (- i)) else str_nat (nat i))"

text \<open>
  The name under which \<^verbatim>\<open>json.dump\<close> writes a key: a string as it is, an integer in
  decimal digits, a boolean as \<^verbatim>\<open>true\<close> or \<^verbatim>\<open>false\<close>, \<^verbatim>\<open>None\<close> as \<^verbatim>\<open>null\<close>.
\<close>

fun key_name :: "key \<Rightarrow> string" where
  "key_name (KStr s) = s"
| "key_name (KInt i) = str_int i"
| "key_name (KBool b) = (if b then ''true'' else ''false'')"
| "key_name KNone = ''null''"

text \<open>
  \<^verbatim>\<open>json.load\<close> builds a dictionary from the members of an object in the order of the
  text; a name that comes again keeps its place and takes the later value. The string
  keys of a dictionary differ from each other, so a name comes again only where a key
  that is not a string was written under the name of another key (\<^verbatim>\<open>1\<close> and \<^verbatim>\<open>'1'\<close>).
  \<open>converted\<close> holds the names written for keys that are not strings.
\<close>

fun load_members :: "(key \<times> json) list \<Rightarrow> string list \<Rightarrow> dict \<Rightarrow> dict" where
  "load_members [] converted d = d"
| "load_members ((KStr name, v) # ms) converted d =
     load_members ms converted (if name \<in> set converted then dict_set d name v else d @ [(name, v)])"
| "load_members ((k, v) # ms) converted d =
     load_members ms (key_name k # converted) (dict_set d (key_name k) v)"

text \<open>
  What \<^verbatim>\<open>json.load\<close> returns from the text that \<^verbatim>\<open>json.dump\<close> has written for a value: a
  tuple comes back as a list, and every key as a string.
\<close>

fun json_dump_load :: "py \<Rightarrow> json" where
  "json_dump_load PNone = JNull"
| "json_dump_load (PBool b) = JBool b"
| "json_dump_load (PInt i) = JInt i"
| "json_dump_load (PStr s) = JStr s"
| "json_dump_load (PList xs) = JArr (map json_dump_load xs)"
| "json_dump_load (PTuple xs) = JArr (map json_dump_load xs)"
| "json_dump_load (PDict kvs) =
     JObj (load_members (map (\<lambda>(k, v). (k, json_dump_load v)) kvs) [] [])"

text \<open>
  \<^verbatim>\<open>
  def save_api_settings(settings: dict):
      CONFIG_DIR.mkdir(parents=True, exist_ok=True)
      with open(CONFIG_FILE, "w") as f:
          json.dump(settings, f, indent=4)
  \<close>
\<close>

definition save_api_settings :: "py \<Rightarrow> json_file \<Rightarrow> json_file" where
  "save_api_settings settings f = Content (json_dump_load settings)"

text \<open>
  \<^verbatim>\<open>k in data\<close> for a decoded JSON value and a string \<open>k\<close>: key membership for a
  dictionary, element membership for a list, substring for a string, and a
  \<^verbatim>\<open>TypeError\<close> (the result \<open>None\<close>) for anything else.
\<close>

definition py_in :: "string \<Rightarrow> json \<Rightarrow> bool option" where
  "py_in k data =
     (case data of
        JObj d \<Rightarrow> Some (has_key d k)
      | JArr xs \<Rightarrow> Some (JStr k \<in> set xs)
      | JStr s \<Rightarrow> Some (contains s k)
      | _ \<Rightarrow> None)"

text \<open>
  \<^verbatim>\<open>data[k]\<close> for a string \<open>k\<close>: a dictionary returns the value or raises \<^verbatim>\<open>KeyError\<close>,
  any other value raises \<^verbatim>\<open>TypeError\<close>.
\<close>

definition py_index :: "json \<Rightarrow> string \<Rightarrow> exn + json" where
  "py_index data k =
     (case data of
        JObj d \<Rightarrow> (case map_of d k of None \<Rightarrow> Inl key_error | Some v \<Rightarrow> Inr v)
      | _ \<Rightarrow> Inl type_error)"

text \<open>
  \<^verbatim>\<open>
  def load_api_settings():
      if CONFIG_FILE.exists():
          try:
              with open(CONFIG_FILE, "r") as f:
                  data = json.load(f)
                  # Handle migration from old single API format
                  if "server_url" in data and "token" in data and "api_configs" not in data:
                      old_config = {
                          "name": "Default Server",
                          "server_url": data["server_url"],
                          "token": data["token"]
                      }
                      data["api_configs"] = [old_config]
                      save_api_settings(data)  # Save migrated data
                  return data
          except Exception:
              return {}
      return {"api_configs": []}
  \<close>
  The function returns the settings and leaves the file in a new state. Every exception
  inside the \<^verbatim>\<open>try\<close> block ends in \<^verbatim>\<open>return {}\<close>.
\<close>

definition old_format :: "json \<Rightarrow> bool option" where
  "old_format data =
     (case (py_in ''server_url'' data, py_in ''token'' data, py_in ''api_configs'' data) of
        (Some a, Some b, Some c) \<Rightarrow> Some (a \<and> b \<and> \<not> c)
      | _ \<Rightarrow> None)"

definition migrate :: "json \<Rightarrow> json option" where
  "migrate data =
     (case (py_index data ''server_url'', py_index data ''token'', data) of
        (Inr u, Inr t, JObj d) \<Rightarrow>
          Some (JObj (dict_set d ''api_configs''
            (JArr [JObj [(''name'', JStr ''Default Server''), (''server_url'', u), (''token'', t)]])))
      | _ \<Rightarrow> None)"

definition load_api_settings :: "json_file \<Rightarrow> json \<times> json_file" where
  "load_api_settings f =
     (case f of
        Absent \<Rightarrow> (JObj [(''api_configs'', JArr [])], f)
      | Unreadable \<Rightarrow> (JObj [], f)
      | Content data \<Rightarrow>
          (case old_format data of
             None \<Rightarrow> (JObj [], f)
           | Some False \<Rightarrow> (data, f)
           | Some True \<Rightarrow>
               (case migrate data of
                  None \<Rightarrow> (JObj [], f)
                | Some data' \<Rightarrow> (data', save_api_settings (py_of data') f))))"


text \<open>\<^verbatim>\<open>v.get(k, default)\<close> on a decoded JSON value: only a dictionary has the method.\<close>

definition py_get :: "json \<Rightarrow> string \<Rightarrow> json \<Rightarrow> exn + json" where
  "py_get v k dflt =
     (case v of JObj d \<Rightarrow> Inr (dict_get d k dflt) | _ \<Rightarrow> Inl attribute_error)"

text \<open>
  \<^verbatim>\<open>for c in v\<close> on a decoded JSON value: the elements of a list, the keys of a
  dictionary, the characters of a string; anything else is not iterable.
\<close>

definition py_iter :: "json \<Rightarrow> exn + json list" where
  "py_iter v =
     (case v of
        JArr xs \<Rightarrow> Inr xs
      | JObj d \<Rightarrow> Inr (map (\<lambda>p. JStr (fst p)) d)
      | JStr s \<Rightarrow> Inr (map (\<lambda>c. JStr [c]) s)
      | _ \<Rightarrow> Inl type_error)"

text \<open>
  Truth value of an optional dictionary (\<^verbatim>\<open>if self.current_config:\<close>): \<^verbatim>\<open>None\<close> and the
  empty dictionary are false.
\<close>

definition truthy :: "dict option \<Rightarrow> bool" where
  "truthy c = (case c of None \<Rightarrow> False | Some d \<Rightarrow> d \<noteq> [])"

text \<open>
  \<^verbatim>\<open>
  def get_api_configs():
      settings = load_api_settings()
      return settings.get("api_configs", [])
  \<close>
\<close>

definition get_api_configs :: "json_file \<Rightarrow> (exn + json) \<times> json_file" where
  "get_api_configs f =
     (let (settings, f') = load_api_settings f
      in (py_get settings ''api_configs'' (JArr []), f'))"

subsection \<open>The configuration panel\<close>

text \<open>
  The panel's fields that the operations read and write, together with the settings file.
  The list widget holds the dictionary of each listed configuration as item data. The
  texts shown to the user are kept as constructors that carry the values formatted into
  them.
\<close>

datatype api_dialog =
    NoSelectionWarning
  | ConfirmRemoval json
  | MissingFieldsWarning
  | NameExistsWarning string
  | SavedInformation

datatype api_status =
    NoStatus
  | SelectedStatus json
  | CreatingStatus
  | RemovedStatus
  | SavedStatus
  | EnterBothStatus
  | TestingStatus
  | ConnectedStatus json
  | ServerVersionStatus json
  | ConnectedBypassStatus json
  | ForbiddenStatus
  | ConnectionFailedStatus string
  | UnexpectedErrorStatus string

record api_panel =
  current_config :: "dict option"
  name_input :: string
  server_input :: string
  token_input :: string
  config_list :: "dict list"
  status_label :: api_status
  dialogs :: "api_dialog list"
  config_file :: json_file

text \<open>
  An operation of the panel returns the exception that left it, if any, and the panel.
\<close>

type_synonym api_result = "exn option \<times> api_panel"

text \<open>
  \<^verbatim>\<open>
  def load_configurations(self):
      self.config_list.clear()
      configs = get_api_configs()
      for config in configs:
          item = QListWidgetItem(f"... {config.get('name', 'Unnamed')}")
          item.setData(Qt.ItemDataRole.UserRole, config)
          self.config_list.addItem(item)
  \<close>
  The loop adds items until a configuration that is not a dictionary raises.
\<close>

fun add_items :: "json list \<Rightarrow> dict list \<Rightarrow> exn option \<times> dict list" where
  "add_items [] items = (None, items)"
| "add_items (JObj d # cs) items = add_items cs (items @ [d])"
| "add_items (c # cs) items = (Some attribute_error, items)"

definition load_configurations :: "api_panel \<Rightarrow> api_result" where
  "load_configurations p =
     (let (r, f') = get_api_configs (config_file p);
          p1 = p\<lparr>config_list := [], config_file := f'\<rparr>
      in case r of
           Inl e \<Rightarrow> (Some e, p1)
         | Inr configs \<Rightarrow>
             (case py_iter configs of
                Inl e \<Rightarrow> (Some e, p1)
              | Inr cs \<Rightarrow>
                  (let (e, items) = add_items cs [] in (e, p1\<lparr>config_list := items\<rparr>))))"

text \<open>
  \<^verbatim>\<open>
  def on_config_selected(self, item):
      config = item.data(Qt.ItemDataRole.UserRole)
      self.current_config = config
      self.name_input.setText(config.get('name', ''))
      self.server_input.setText(config.get('server_url', ''))
      self.token_input.setText(config.get('token', ''))
      self.status_label.setText(f"Selected configuration: {config.get('name', 'Unnamed')}")
  \<close>
  \<^verbatim>\<open>setText\<close> accepts a string only and raises \<^verbatim>\<open>TypeError\<close> otherwise.
\<close>

definition on_config_selected :: "dict \<Rightarrow> api_panel \<Rightarrow> api_result" where
  "on_config_selected config p =
     (let p1 = p\<lparr>current_config := Some config\<rparr>
      in case dict_get config ''name'' (JStr []) of
           JStr n \<Rightarrow>
             (case dict_get config ''server_url'' (JStr []) of
                JStr u \<Rightarrow>
                  (case dict_get config ''token'' (JStr []) of
                     JStr t \<Rightarrow>
                       (None, p1\<lparr>name_input := n, server_input := u, token_input := t,
                          status_label := SelectedStatus (dict_get config ''name'' (JStr ''Unnamed''))\<rparr>)
                   | _ \<Rightarrow> (Some type_error, p1\<lparr>name_input := n, server_input := u\<rparr>))
              | _ \<Rightarrow> (Some type_error, p1\<lparr>name_input := n\<rparr>))
         | _ \<Rightarrow> (Some type_error, p1))"

text \<open>
  \<^verbatim>\<open>
  def add_new_config(self):
      self.current_config = None
      self.name_input.clear()
      self.server_input.clear()
      self.token_input.clear()
      self.status_label.setText("Creating new configuration...")
  \<close>
\<close>

definition add_new_config :: "api_panel \<Rightarrow> api_panel" where
  "add_new_config p =
     p\<lparr>current_config := None, name_input := [], server_input := [], token_input := [],
       status_label := CreatingStatus\<rparr>"

text \<open>
  The list comprehension of \<open>remove_config\<close>,
  \<^verbatim>\<open>[c for c in configs if c.get('name') != self.current_config.get('name')]\<close>.
  Names are compared as values; for the strings the panel stores this is Python's \<^verbatim>\<open>==\<close>.
\<close>

fun keep_other_names :: "json \<Rightarrow> json list \<Rightarrow> exn + json list" where
  "keep_other_names n [] = Inr []"
| "keep_other_names n (c # cs) =
     (case py_get c ''name'' JNull of
        Inl e \<Rightarrow> Inl e
      | Inr v \<Rightarrow>
          (case keep_other_names n cs of
             Inl e \<Rightarrow> Inl e
           | Inr r \<Rightarrow> Inr (if v \<noteq> n then c # r else r)))"

text \<open>
  \<^verbatim>\<open>
  def remove_config(self):
      if not self.current_config:
          QMessageBox.warning(self, "No Selection", "Please select a configuration to remove.")
          return
      reply = QMessageBox.question(self, "Confirm Removal", f"Are you sure ... '{...}'?", Yes | No)
      if reply == QMessageBox.StandardButton.Yes:
          settings = load_api_settings()
          configs = settings.get("api_configs", [])
          configs = [c for c in configs if c.get('name') != self.current_config.get('name')]
          settings["api_configs"] = configs
          save_api_settings(settings)
          self.load_configurations()
          self.add_new_config()
          self.status_label.setText("Configuration removed successfully!")
  \<close>
  The first argument is the user's answer to the question.
\<close>

definition remove_config :: "bool \<Rightarrow> api_panel \<Rightarrow> api_result" where
  "remove_config yes p =
     (if \<not> truthy (current_config p)
      then (None, p\<lparr>dialogs := dialogs p @ [NoSelectionWarning]\<rparr>)
      else
        (let cc = the (current_config p);
             p1 = p\<lparr>dialogs := dialogs p @ [ConfirmRemoval (dict_get cc ''name'' (JStr ''Unnamed''))]\<rparr>
         in if \<not> yes then (None, p1)
            else
              (let (settings, f1) = load_api_settings (config_file p1);
                   p2 = p1\<lparr>config_file := f1\<rparr>
               in case settings of
                    JObj sd \<Rightarrow>
                      (case py_iter (dict_get sd ''api_configs'' (JArr [])) of
                         Inl e \<Rightarrow> (Some e, p2)
                       | Inr cs \<Rightarrow>
                           (case keep_other_names (dict_get cc ''name'' JNull) cs of
                              Inl e \<Rightarrow> (Some e, p2)
                            | Inr kept \<Rightarrow>
                                (let settings' = JObj (dict_set sd ''api_configs'' (JArr kept));
                                     p3 = p2\<lparr>config_file := save_api_settings (py_of settings') f1\<rparr>
                                 in case load_configurations p3 of
                                      (Some e, p4) \<Rightarrow> (Some e, p4)
                                    | (None, p4) \<Rightarrow>
                                        (None, (add_new_config p4)\<lparr>status_label := RemovedStatus\<rparr>))))
                  | _ \<Rightarrow> (Some attribute_error, p2))))"

text \<open>
  The update loop of \<open>save_configuration\<close>: the first configuration whose name equals the
  name of the selected one is replaced.
  \<^verbatim>\<open>
  for i, config in enumerate(configs):
      if config.get('name') == self.current_config.get('name'):
          configs[i] = {"name": name, "server_url": server, "token": token}
          break
  \<close>
\<close>

fun replace_first :: "json \<Rightarrow> json \<Rightarrow> json list \<Rightarrow> exn + json list" where
  "replace_first old new [] = Inr []"
| "replace_first old new (c # cs) =
     (case py_get c ''name'' JNull of
        Inl e \<Rightarrow> Inl e
      | Inr v \<Rightarrow>
          if v = old then Inr (new # cs)
          else (case replace_first old new cs of Inl e \<Rightarrow> Inl e | Inr r \<Rightarrow> Inr (c # r)))"

text \<open>
  The loop runs over whatever \<open>configs\<close> is. Item assignment happens only for a list; a
  dictionary or a string yields strings, whose \<^verbatim>\<open>.get\<close> raises, unless it is empty.
\<close>

definition update_configs :: "json \<Rightarrow> json \<Rightarrow> json \<Rightarrow> exn + json" where
  "update_configs old new configs =
     (case configs of
        JArr xs \<Rightarrow> (case replace_first old new xs of Inl e \<Rightarrow> Inl e | Inr r \<Rightarrow> Inr (JArr r))
      | JObj d \<Rightarrow> (if d = [] then Inr configs else Inl attribute_error)
      | JStr s \<Rightarrow> (if s = [] then Inr configs else Inl attribute_error)
      | _ \<Rightarrow> Inl type_error)"

text \<open>
  The check of the creating branch: \<open>Inr True\<close> when some configuration has the name.
  \<^verbatim>\<open>
  for config in configs:
      if config.get('name') == name:
          QMessageBox.warning(self, "Error", f"A configuration with the name '{name}' already exists.")
          return
  \<close>
\<close>

fun name_exists :: "json \<Rightarrow> json list \<Rightarrow> exn + bool" where
  "name_exists n [] = Inr False"
| "name_exists n (c # cs) =
     (case py_get c ''name'' JNull of
        Inl e \<Rightarrow> Inl e
      | Inr v \<Rightarrow> if v = n then Inr True else name_exists n cs)"

text \<open>\<^verbatim>\<open>configs.append(c)\<close>: only a list has the method.\<close>

definition py_append :: "json \<Rightarrow> json \<Rightarrow> exn + json" where
  "py_append configs c =
     (case configs of JArr xs \<Rightarrow> Inr (JArr (xs @ [c])) | _ \<Rightarrow> Inl attribute_error)"

text \<open>
  The last loop of \<open>save_configuration\<close> selects the first listed item with the saved name.
  \<^verbatim>\<open>
  for i in range(self.config_list.count()):
      item = self.config_list.item(i)
      if item.data(Qt.ItemDataRole.UserRole).get('name') == name:
          self.config_list.setCurrentItem(item)
          self.on_config_selected(item)
          break
  \<close>
\<close>

fun select_saved :: "string \<Rightarrow> dict list \<Rightarrow> api_panel \<Rightarrow> api_result" where
  "select_saved n [] p = (None, p)"
| "select_saved n (d # ds) p =
     (if dict_get d ''name'' JNull = JStr n then on_config_selected d p
      else select_saved n ds p)"

text \<open>
  The branch on \<^verbatim>\<open>self.current_config\<close> of \<open>save_configuration\<close>: the new value of
  \<open>configs\<close>, or \<open>None\<close> when the name is taken and the function returns after its warning.
  \<^verbatim>\<open>
  if self.current_config:
      for i, config in enumerate(configs): ...
  else:
      for config in configs: ...
      configs.append({"name": name, "server_url": server, "token": token})
  \<close>
\<close>

definition new_configs :: "dict option \<Rightarrow> json \<Rightarrow> json \<Rightarrow> json \<Rightarrow> exn + json option" where
  "new_configs cc n entry configs =
     (if truthy cc then
        (case update_configs (dict_get (the cc) ''name'' JNull) entry configs of
           Inl e \<Rightarrow> Inl e
         | Inr r \<Rightarrow> Inr (Some r))
      else
        (case py_iter configs of
           Inl e \<Rightarrow> Inl e
         | Inr cs \<Rightarrow>
             (case name_exists n cs of
                Inl e \<Rightarrow> Inl e
              | Inr True \<Rightarrow> Inr None
              | Inr False \<Rightarrow>
                  (case py_append configs entry of Inl e \<Rightarrow> Inl e | Inr r \<Rightarrow> Inr (Some r)))))"

text \<open>
  \<^verbatim>\<open>
  def save_configuration(self):
      name = self.name_input.text().strip()
      server = self.server_input.text().strip()
      token = self.token_input.text().strip()
      if not name or not server or not token:
          QMessageBox.warning(self, "Error", "Please enter configuration name, server URL, and API token.")
          return
      if not server.startswith(('http://', 'https://')):
          server = f"https://{server}"
      server = server.rstrip('/')
      settings = load_api_settings()
      configs = settings.get("api_configs", [])
      if self.current_config:
          ...
      settings["api_configs"] = configs
      save_api_settings(settings)
      self.load_configurations()
      for i in range(self.config_list.count()): ...
      self.status_label.setText("Configuration saved successfully!")
      QMessageBox.information(self, "Saved", "API configuration saved successfully.")
  \<close>
\<close>

definition save_configuration :: "api_panel \<Rightarrow> api_result" where
  "save_configuration p =
     (let name = strip (name_input p);
          server = strip (server_input p);
          token = strip (token_input p)
      in if name = [] \<or> server = [] \<or> token = []
         then (None, p\<lparr>dialogs := dialogs p @ [MissingFieldsWarning]\<rparr>)
         else
           (let server' = normalise_server server;
                entry = JObj [(''name'', JStr name), (''server_url'', JStr server'), (''token'', JStr token)];
                (settings, f1) = load_api_settings (config_file p);
                p1 = p\<lparr>config_file := f1\<rparr>
            in case settings of
                 JObj sd \<Rightarrow>
                   (case new_configs (current_config p) (JStr name) entry
                           (dict_get sd ''api_configs'' (JArr [])) of
                      Inl e \<Rightarrow> (Some e, p1)
                    | Inr None \<Rightarrow> (None, p1\<lparr>dialogs := dialogs p1 @ [NameExistsWarning name]\<rparr>)
                    | Inr (Some configs') \<Rightarrow>
                        (let settings' = JObj (dict_set sd ''api_configs'' configs');
                             p2 = p1\<lparr>config_file := save_api_settings (py_of settings') f1\<rparr>
                         in case load_configurations p2 of
                              (Some e, p3) \<Rightarrow> (Some e, p3)
                            | (None, p3) \<Rightarrow>
                                (case select_saved name (config_list p3) p3 of
                                   (Some e, p4) \<Rightarrow> (Some e, p4)
                                 | (None, p4) \<Rightarrow>
                                     (None, p4\<lparr>status_label := SavedStatus,
                                        dialogs := dialogs p4 @ [SavedInformation]\<rparr>))))
               | _ \<Rightarrow> (Some attribute_error, p1)))"

text \<open>
  The names of the configurations stored in the file, in order (\<open>None\<close> for a file that
  does not hold a list of dictionaries under the key \<^verbatim>\<open>api_configs\<close>).
\<close>

fun config_names :: "json list \<Rightarrow> json list option" where
  "config_names [] = Some []"
| "config_names (JObj d # cs) =
     (case config_names cs of None \<Rightarrow> None | Some ns \<Rightarrow> Some (dict_get d ''name'' JNull # ns))"
| "config_names (c # cs) = None"

definition stored_names :: "json_file \<Rightarrow> json list option" where
  "stored_names f =
     (case f of
        Content (JObj sd) \<Rightarrow>
          (case dict_get sd ''api_configs'' (JArr []) of JArr cs \<Rightarrow> config_names cs | _ \<Rightarrow> None)
      | _ \<Rightarrow> None)"

section \<open>Requests to the Gitea server\<close>

text \<open>
  Every request of the application is \<^verbatim>\<open>requests.get(url, headers=headers, ...)\<close> with the
  header \<^verbatim>\<open>{"Authorization": f"token {token}"}\<close>, an optional \<^verbatim>\<open>verify=False\<close> and a
  timeout in seconds.
\<close>

record request =
  url :: string
  authorization :: string
  verify :: bool
  timeout :: nat

text \<open>
  A response has a status code and a body; \<^verbatim>\<open>resp.json()\<close> returns the decoded body or
  raises. \<open>http_error\<close> is the text of the \<^verbatim>\<open>HTTPError\<close> that \<^verbatim>\<open>resp.raise_for_status()\<close>
  raises for a status from 400 to 599.
\<close>

record response =
  status_code :: nat
  http_error :: string
  body :: "exn + json"

datatype reply = Raised exn | Replied response

text \<open>
  The server and the network are a function from the requests made so far in the
  operation and the next request to what \<^verbatim>\<open>requests.get\<close> does with it.
\<close>

type_synonym web = "request list \<Rightarrow> request \<Rightarrow> reply"

definition raise_for_status :: "response \<Rightarrow> exn option" where
  "raise_for_status resp =
     (if 400 \<le> status_code resp \<and> status_code resp < 600
      then Some \<lparr>cls = RequestException, msg = http_error resp\<rparr> else None)"

definition get_request :: "string \<Rightarrow> string \<Rightarrow> bool \<Rightarrow> nat \<Rightarrow> request" where
  "get_request u token v t = \<lparr>url = u, authorization = ''token '' @ token, verify = v, timeout = t\<rparr>"

subsection \<open>The connection test (api\_config.py)\<close>

text \<open>
  The loop over the alternative addresses, entered when the first response has status 403.
  \<^verbatim>\<open>
  for alt_url in alt_urls:
      try:
          alt_resp = requests.get(alt_url, headers=headers, verify=False, timeout=10)
          if alt_resp.status_code == 200:
              if "version" in alt_url:
                  self.status_label.setText(f"... {alt_resp.json().get('version', 'Unknown')}")
              else:
                  user_data = alt_resp.json()
                  self.status_label.setText(f"... {user_data.get('login', 'Unknown user')}")
              return
      except:
          continue
  self.status_label.setText(f"... 403 Forbidden - Check: ...")
  return
  \<close>
  The result is the list of all requests made and the text of the status label.
\<close>

fun try_alt_urls :: "web \<Rightarrow> string \<Rightarrow> request list \<Rightarrow> string list \<Rightarrow> request list \<times> api_status" where
  "try_alt_urls w token hist [] = (hist, ForbiddenStatus)"
| "try_alt_urls w token hist (alt_url # rest) =
     (let r = get_request alt_url token False 10; hist' = hist @ [r]
      in case w hist r of
           Raised e \<Rightarrow> try_alt_urls w token hist' rest
         | Replied alt_resp \<Rightarrow>
             if status_code alt_resp = 200 then
               (case body alt_resp of
                  Inl e \<Rightarrow> try_alt_urls w token hist' rest
                | Inr data \<Rightarrow>
                    if contains alt_url ''version'' then
                      (case py_get data ''version'' (JStr ''Unknown'') of
                         Inl e \<Rightarrow> try_alt_urls w token hist' rest
                       | Inr v \<Rightarrow> (hist', ServerVersionStatus v))
                    else
                      (case py_get data ''login'' (JStr ''Unknown user'') of
                         Inl e \<Rightarrow> try_alt_urls w token hist' rest
                       | Inr v \<Rightarrow> (hist', ConnectedStatus v)))
             else try_alt_urls w token hist' rest)"

text \<open>
  Reading the user out of a response that is not a 403:
  \<^verbatim>\<open>
  resp.raise_for_status()
  user_data = resp.json()
  ... user_data.get('login', 'Unknown user') ...
  \<close>
\<close>

definition read_login :: "response \<Rightarrow> exn + json" where
  "read_login resp =
     (case raise_for_status resp of
        Some e \<Rightarrow> Inl e
      | None \<Rightarrow>
          (case body resp of
             Inl e \<Rightarrow> Inl e
           | Inr user_data \<Rightarrow> py_get user_data ''login'' (JStr ''Unknown user'')))"

text \<open>
  The handler of an SSL error repeats the request without certificate verification.
  \<^verbatim>\<open>
  except requests.exceptions.SSLError:
      try:
          resp = requests.get(url, headers=headers, verify=False, timeout=10)
          if resp.status_code == 403:
              self.status_label.setText(f"... 403 Forbidden - Check: ...")
              return
          resp.raise_for_status()
          user_data = resp.json()
          self.status_label.setText(f"... (SSL bypassed)! Logged in as: {user_data.get('login', 'Unknown user')}")
      except Exception as e:
          self.status_label.setText(f"... Connection failed: {str(e)}")
  \<close>
\<close>

definition ssl_fallback :: "web \<Rightarrow> string \<Rightarrow> string \<Rightarrow> request list \<Rightarrow> request list \<times> api_status" where
  "ssl_fallback w u token hist =
     (let r = get_request u token False 10; hist' = hist @ [r]
      in case w hist r of
           Raised e \<Rightarrow> (hist', ConnectionFailedStatus (msg e))
         | Replied resp \<Rightarrow>
             if status_code resp = 403 then (hist', ForbiddenStatus)
             else (case read_login resp of
                     Inl e \<Rightarrow> (hist', ConnectionFailedStatus (msg e))
                   | Inr v \<Rightarrow> (hist', ConnectedBypassStatus v)))"

text \<open>
  The handlers of the outer \<^verbatim>\<open>try\<close>, chosen by the class of the exception.
  \<^verbatim>\<open>
  except requests.exceptions.SSLError: ...
  except requests.exceptions.RequestException as e:
      if "403" in str(e):
          self.status_label.setText(f"... 403 Forbidden - Check: ...")
      else:
          self.status_label.setText(f"... Connection failed: {str(e)}")
  except Exception as e:
      self.status_label.setText(f"... Unexpected error: {str(e)}")
  \<close>
\<close>

definition handle_test_error :: "web \<Rightarrow> string \<Rightarrow> string \<Rightarrow> request list \<Rightarrow> exn \<Rightarrow> request list \<times> api_status" where
  "handle_test_error w u token hist e =
     (case cls e of
        SSLError \<Rightarrow> ssl_fallback w u token hist
      | RequestException \<Rightarrow>
          (hist, if contains (msg e) ''403'' then ForbiddenStatus else ConnectionFailedStatus (msg e))
      | OtherException \<Rightarrow> (hist, UnexpectedErrorStatus (msg e)))"

text \<open>
  \<^verbatim>\<open>
  def test_connection(self):
      server = self.server_input.text().strip()
      token = self.token_input.text().strip()
      if not server or not token:
          self.status_label.setText("Please enter both server URL and API token.")
          return
      if not server.startswith(('http://', 'https://')):
          server = f"https://{server}"
      server = server.rstrip('/')
      self.status_label.setText("Testing connection...")
      ...
      try:
          url = f"{server}/api/v1/user"
          headers = {"Authorization": f"token {token}"}
          resp = requests.get(url, headers=headers, timeout=10)
          if resp.status_code == 403:
              alt_urls = [f"{server}/api/v1/user", f"{server}/api/v1/user/current",
                          f"{server}/api/v1/version"]
              ...
          resp.raise_for_status()
          user_data = resp.json()
          self.status_label.setText(f"... Logged in as: {user_data.get('login', 'Unknown user')}")
      except ...
      finally:
          self.test_button.setEnabled(True)
  \<close>
  The result is the list of the requests made, in order, and the panel.
\<close>

definition alt_urls :: "string \<Rightarrow> string list" where
  "alt_urls server = [server @ ''/api/v1/user'', server @ ''/api/v1/user/current'', server @ ''/api/v1/version'']"

definition test_connection :: "web \<Rightarrow> api_panel \<Rightarrow> request list \<times> api_panel" where
  "test_connection w p =
     (let server = strip (server_input p); token = strip (token_input p)
      in if server = [] \<or> token = [] then ([], p\<lparr>status_label := EnterBothStatus\<rparr>)
         else
           (let server' = normalise_server server;
                u = server' @ ''/api/v1/user'';
                r = get_request u token True 10;
                (hist, st) =
                  (case w [] r of
                     Raised e \<Rightarrow> handle_test_error w u token [r] e
                   | Replied resp \<Rightarrow>
                       if status_code resp = 403 then try_alt_urls w token [r] (alt_urls server')
                       else (case read_login resp of
                               Inl e \<Rightarrow> handle_test_error w u token [r] e
                             | Inr v \<Rightarrow> ([r], ConnectedStatus v)))
            in (hist, p\<lparr>status_label := st\<rparr>)))"

section \<open>The repository directory and the repository list (repo\_utils.py)\<close>

text \<open>
  \<^verbatim>\<open>
  BASE_DIR = Path.home() / "Gitea Repos"
  REPO_STORAGE = Path.home() / ".gitea_repos.json"
  \<close>
  The base directory is absent or holds named entries, in the order in which
  \<^verbatim>\<open>iterdir\<close> lists them. An entry is a directory, with a number standing for all it
  contains, or something that is not a directory.
\<close>

datatype entry = Directory nat | NotDirectory

record disk =
  base_dir :: "(string \<times> entry) list option"
  repo_storage :: json_file

definition is_dir :: "entry \<Rightarrow> bool" where
  "is_dir e = (case e of Directory c \<Rightarrow> True | NotDirectory \<Rightarrow> False)"

text \<open>The names of the directories in the base directory: \<^verbatim>\<open>[p.name for p in BASE_DIR.iterdir() if p.is_dir()]\<close>.\<close>

definition dir_names :: "(string \<times> entry) list \<Rightarrow> string list" where
  "dir_names es = map fst (filter (\<lambda>p. is_dir (snd p)) es)"

text \<open>\<^verbatim>\<open>BASE_DIR.mkdir(exist_ok=True)\<close>.\<close>

definition mkdir_base :: "disk \<Rightarrow> disk" where
  "mkdir_base d = (case base_dir d of None \<Rightarrow> d\<lparr>base_dir := Some []\<rparr> | Some es \<Rightarrow> d)"

text \<open>
  \<^verbatim>\<open>
  def load_repos():
      if REPO_STORAGE.exists():
          with open(REPO_STORAGE, "r") as f:
              try:
                  return json.load(f)
              except json.JSONDecodeError:
                  return []
      return []
  \<close>
\<close>

definition load_repos :: "disk \<Rightarrow> json" where
  "load_repos d =
     (case repo_storage d of Absent \<Rightarrow> JArr [] | Unreadable \<Rightarrow> JArr [] | Content v \<Rightarrow> v)"

text \<open>
  \<^verbatim>\<open>
  def update_repo_json():
      BASE_DIR.mkdir(exist_ok=True)
      repos = [{"name": p.name} for p in BASE_DIR.iterdir() if p.is_dir()]
      with open(REPO_STORAGE, "w") as f:
          json.dump(repos, f, indent=2)
  \<close>
\<close>

definition repo_records :: "disk \<Rightarrow> json list" where
  "repo_records d =
     map (\<lambda>n. JObj [(''name'', JStr n)]) (dir_names (the (base_dir (mkdir_base d))))"

definition update_repo_json :: "disk \<Rightarrow> disk" where
  "update_repo_json d = (mkdir_base d)\<lparr>repo_storage := Content (JArr (repo_records d))\<rparr>"

text \<open>
  \<^verbatim>\<open>
  def get_existing_repo_names():
      if not BASE_DIR.exists():
          return []
      return [p.name for p in BASE_DIR.iterdir() if p.is_dir()]
  \<close>
\<close>

definition get_existing_repo_names :: "disk \<Rightarrow> string list" where
  "get_existing_repo_names d = (case base_dir d of None \<Rightarrow> [] | Some es \<Rightarrow> dir_names es)"

text \<open>The fields of a stored record: the keys of the dictionary.\<close>

definition record_fields :: "json \<Rightarrow> string list" where
  "record_fields r = (case r of JObj d \<Rightarrow> map fst d | _ \<Rightarrow> [])"

section \<open>Bulk download (user\_manager.py)\<close>

datatype um_dialog =
    ProvideUsernameWarning
  | SelectServerWarning
  | MissingServerOrTokenWarning
  | FetchFailedBothWarning string
  | FetchFailedWarning string
  | NoSelectionInformation
  | SomeExistInformation "string list"
  | NoNewReposInformation
  | CompleteWithErrorsWarning nat "string list"
  | CompleteInformation nat

datatype um_status =
    EmptyStatus
  | FetchingStatus
  | NoReposStatus
  | FoundMixedStatus nat nat nat
  | FoundStatus nat
  | CloningStatus string
  | DownloadedStatus nat

text \<open>
  The fields of the dialogue that the two operations read and write. An item of the list
  widget is its check state and the repository dictionary stored as item data.
\<close>

record user_manager =
  username_input :: string
  selected_config :: "dict option"
  repo_list :: "(bool \<times> json) list"
  um_status_label :: um_status
  um_dialogs :: "um_dialog list"
  progress_visible :: bool
  progress_maximum :: nat
  progress_value :: nat
  download_enabled :: bool
  downloaded_count :: nat
  repo_changed_emitted :: nat
  files :: disk

text \<open>\<^verbatim>\<open>self.selected_config.get(k, '').strip()\<close>: only a string has the method.\<close>

definition config_text :: "dict \<Rightarrow> string \<Rightarrow> exn + string" where
  "config_text c k = (case dict_get c k (JStr []) of JStr s \<Rightarrow> Inr (strip s) | _ \<Rightarrow> Inl attribute_error)"

text \<open>Truth value of a decoded JSON value (\<^verbatim>\<open>if not repos:\<close>).\<close>

definition py_truth :: "json \<Rightarrow> bool" where
  "py_truth v =
     (case v of
        JNull \<Rightarrow> False
      | JBool b \<Rightarrow> b
      | JInt i \<Rightarrow> i \<noteq> 0
      | JStr s \<Rightarrow> s \<noteq> []
      | JArr xs \<Rightarrow> xs \<noteq> []
      | JObj d \<Rightarrow> d \<noteq> [])"

text \<open>\<^verbatim>\<open>repo_name in existing_repos\<close>, for a list of strings.\<close>

definition name_in :: "json \<Rightarrow> string list \<Rightarrow> bool" where
  "name_in v names = (case v of JStr n \<Rightarrow> n \<in> set names | _ \<Rightarrow> False)"

text \<open>
  \<^verbatim>\<open>resp.raise_for_status(); repos = resp.json()\<close>
\<close>

definition read_repos :: "response \<Rightarrow> exn + json" where
  "read_repos resp = (case raise_for_status resp of Some e \<Rightarrow> Inl e | None \<Rightarrow> body resp)"

text \<open>
  The population of the list widget, one item for each repository of the answer, unchecked.
  \<^verbatim>\<open>
  for repo in repos:
      repo_name = repo["name"]
      repo_desc = repo.get("description", "No description")
      if repo_name in existing_repos:
          display_text = f"... {repo_name} - {repo_desc[:40]}{'...' if len(repo_desc) > 40 else ''} ..."
      else:
          display_text = f"{repo_name} - {repo_desc[:50]}{'...' if len(repo_desc) > 50 else ''}"
      item = QListWidgetItem(display_text)
      ...
      item.setCheckState(Qt.CheckState.Unchecked)
      item.setData(Qt.ItemDataRole.UserRole, repo)
      self.repo_list.addItem(item)
  \<close>
  Taking a slice and the length of the description raises unless it is a string or a list.
\<close>

definition sliceable :: "json \<Rightarrow> bool" where
  "sliceable v = (case v of JStr s \<Rightarrow> True | JArr xs \<Rightarrow> True | _ \<Rightarrow> False)"

fun add_repo_items :: "json list \<Rightarrow> (bool \<times> json) list \<Rightarrow> exn option \<times> (bool \<times> json) list" where
  "add_repo_items [] items = (None, items)"
| "add_repo_items (repo # rs) items =
     (case py_index repo ''name'' of
        Inl e \<Rightarrow> (Some e, items)
      | Inr repo_name \<Rightarrow>
          (case py_get repo ''description'' (JStr ''No description'') of
             Inl e \<Rightarrow> (Some e, items)
           | Inr repo_desc \<Rightarrow>
               if sliceable repo_desc then add_repo_items rs (items @ [(False, repo)])
               else (Some type_error, items)))"

text \<open>
  \<^verbatim>\<open>
  self.repo_list.clear()
  if not repos:
      self.status_label.setText("No repositories found for this user.")
      self.download_button.setEnabled(False)
  else:
      existing_repos = get_existing_repo_names()
      for repo in repos: ...
      existing_count = len([r for r in repos if r["name"] in existing_repos])
      new_count = len(repos) - existing_count
      if existing_count > 0:
          self.status_label.setText(f"Found {len(repos)} repositories ({new_count} new, ...")
      else:
          self.status_label.setText(f"Found {len(repos)} repositories. Select ...")
      self.download_button.setEnabled(True)
  \<close>
\<close>

definition count_existing :: "json list \<Rightarrow> string list \<Rightarrow> nat" where
  "count_existing rs names =
     length (filter (\<lambda>r. case py_index r ''name'' of Inr v \<Rightarrow> name_in v names | Inl e \<Rightarrow> False) rs)"

definition populate :: "json \<Rightarrow> user_manager \<Rightarrow> exn option \<times> user_manager" where
  "populate repos m =
     (let m1 = m\<lparr>repo_list := []\<rparr>
      in if \<not> py_truth repos
         then (None, m1\<lparr>um_status_label := NoReposStatus, download_enabled := False\<rparr>)
         else
           (let existing_repos = get_existing_repo_names (files m1)
            in case py_iter repos of
                 Inl e \<Rightarrow> (Some e, m1)
               | Inr rs \<Rightarrow>
                   (case add_repo_items rs [] of
                      (Some e, items) \<Rightarrow> (Some e, m1\<lparr>repo_list := items\<rparr>)
                    | (None, items) \<Rightarrow>
                        (let existing_count = count_existing rs existing_repos;
                             new_count = length rs - existing_count
                         in (None, m1\<lparr>repo_list := items,
                               um_status_label :=
                                 (if existing_count > 0
                                  then FoundMixedStatus (length rs) new_count existing_count
                                  else FoundStatus (length rs)),
                               download_enabled := True\<rparr>)))))"

text \<open>
  The request of \<open>fetch_repos\<close> and its handlers.
  \<^verbatim>\<open>
  try:
      resp = requests.get(url, headers=headers, timeout=30)
      resp.raise_for_status()
      repos = resp.json()
  except requests.exceptions.SSLError:
      try:
          resp = requests.get(url, headers=headers, verify=False, timeout=30)
          resp.raise_for_status()
          repos = resp.json()
      except Exception as e:
          QMessageBox.warning(self, "Error", f"Failed to fetch repos (SSL and non-SSL failed):\n{e}")
          self.status_label.setText("")
          self.fetch_button.setEnabled(True)
          return
  except requests.exceptions.RequestException as e:
      QMessageBox.warning(self, "Error", f"Failed to fetch repos:\n{e}")
      self.status_label.setText("")
      self.fetch_button.setEnabled(True)
      return
  \<close>
  The result is the list of the requests made and one of: the repositories, a warning
  shown to the user, an exception that no handler catches.
\<close>

datatype fetched = Repos json | Warned um_dialog | Uncaught exn

definition attempt :: "web \<Rightarrow> request list \<Rightarrow> request \<Rightarrow> exn + json" where
  "attempt w hist r = (case w hist r of Raised e \<Rightarrow> Inl e | Replied resp \<Rightarrow> read_repos resp)"

definition request_repos :: "web \<Rightarrow> string \<Rightarrow> string \<Rightarrow> request list \<times> fetched" where
  "request_repos w u token =
     (let r1 = get_request u token True 30
      in case attempt w [] r1 of
           Inr repos \<Rightarrow> ([r1], Repos repos)
         | Inl e \<Rightarrow>
             (case cls e of
                SSLError \<Rightarrow>
                  (let r2 = get_request u token False 30
                   in case attempt w [r1] r2 of
                        Inr repos \<Rightarrow> ([r1, r2], Repos repos)
                      | Inl e2 \<Rightarrow> ([r1, r2], Warned (FetchFailedBothWarning (msg e2))))
              | RequestException \<Rightarrow> ([r1], Warned (FetchFailedWarning (msg e)))
              | OtherException \<Rightarrow> ([r1], Uncaught e)))"

text \<open>
  \<^verbatim>\<open>
  def fetch_repos(self):
      username = self.username_input.text().strip()
      if not username:
          QMessageBox.warning(self, "Error", "Please provide username.")
          return
      if not self.selected_config:
          QMessageBox.warning(self, "Error", "Please select a Gitea server configuration.")
          return
      server = self.selected_config.get('server_url', '').strip()
      token = self.selected_config.get('token', '').strip()
      if not server or not token:
          QMessageBox.warning(self, "Error", "Selected configuration is missing server URL or token.")
          return
      if not server.startswith(('http://', 'https://')):
          server = f"https://{server}"
      server = server.rstrip('/')
      url = f"{server}/api/v1/users/{username}/repos"
      headers = {"Authorization": f"token {token}"}
      self.status_label.setText("Fetching repositories...")
      ...
  \<close>
  The result is the list of the requests made, the exception that left the function, if
  any, and the dialogue.
\<close>

definition warn :: "um_dialog \<Rightarrow> user_manager \<Rightarrow> user_manager" where
  "warn d m = m\<lparr>um_dialogs := um_dialogs m @ [d]\<rparr>"

definition repos_url :: "string \<Rightarrow> string \<Rightarrow> string" where
  "repos_url server username = server @ ''/api/v1/users/'' @ username @ ''/repos''"

definition fetch_repos :: "web \<Rightarrow> user_manager \<Rightarrow> request list \<times> exn option \<times> user_manager" where
  "fetch_repos w m =
     (let username = strip (username_input m)
      in if username = [] then ([], None, warn ProvideUsernameWarning m)
         else if \<not> truthy (selected_config m) then ([], None, warn SelectServerWarning m)
         else
           (case config_text (the (selected_config m)) ''server_url'' of
              Inl e \<Rightarrow> ([], Some e, m)
            | Inr server \<Rightarrow>
                (case config_text (the (selected_config m)) ''token'' of
                   Inl e \<Rightarrow> ([], Some e, m)
                 | Inr token \<Rightarrow>
                     if server = [] \<or> token = [] then ([], None, warn MissingServerOrTokenWarning m)
                     else
                       (let u = repos_url (normalise_server server) username;
                            m1 = m\<lparr>um_status_label := FetchingStatus\<rparr>
                        in case request_repos w u token of
                             (hist, Repos repos) \<Rightarrow>
                               (let (e, m2) = populate repos m1 in (hist, e, m2))
                           | (hist, Warned d) \<Rightarrow>
                               (hist, None, (warn d m1)\<lparr>um_status_label := EmptyStatus\<rparr>)
                           | (hist, Uncaught e) \<Rightarrow> (hist, Some e, m1)))))"

subsection \<open>Cloning the selected repositories\<close>

text \<open>
  The command of one clone,
  \<^verbatim>\<open>
  auth_url = f"{server.replace('https://', f'https://{username}:{token}@')}/{owner}/{repo_name}.git"
  dest = BASE_DOWNLOAD_DIR / repo_name
  git_cmd = ["git", "clone", "--config", "http.sslVerify=false", auth_url, str(dest)]
  \<close>
  is kept as the values it is built from; the destination is the name below the base
  directory.
\<close>

record clone_cmd =
  clone_server :: string
  clone_username :: string
  clone_token :: json
  clone_owner :: json
  clone_repo :: string
  dest :: string

text \<open>
  What \<^verbatim>\<open>subprocess.run(git_cmd, check=True, capture_output=True, text=True, timeout=300)\<close>
  does: it returns, or raises one of the exceptions the loop tells apart. A process error
  carries the text the loop reports (\<^verbatim>\<open>e.stderr.strip() if e.stderr else str(e)\<close>). The
  command leaves something or nothing at its destination, and touches no other entry of
  the base directory.
\<close>

datatype clone_outcome = Cloned | CalledProcessError string | TimeoutExpired | OtherFailure string

record clone_reply =
  outcome :: clone_outcome
  dest_after :: "entry option"

type_synonym cloner = "clone_cmd list \<Rightarrow> clone_cmd \<Rightarrow> clone_reply"

fun set_entry :: "string \<Rightarrow> entry option \<Rightarrow> (string \<times> entry) list \<Rightarrow> (string \<times> entry) list" where
  "set_entry n None [] = []"
| "set_entry n (Some e) [] = [(n, e)]"
| "set_entry n eo (p # ps) =
     (if fst p = n then (case eo of None \<Rightarrow> ps | Some e \<Rightarrow> (n, e) # ps)
      else p # set_entry n eo ps)"

definition write_dest :: "string \<Rightarrow> entry option \<Rightarrow> disk \<Rightarrow> disk" where
  "write_dest n eo d =
     d\<lparr>base_dir := Some (set_entry n eo (case base_dir d of None \<Rightarrow> [] | Some es \<Rightarrow> es))\<rparr>"

text \<open>
  The separation of the selected repositories.
  \<^verbatim>\<open>
  for repo in selected_repos:
      repo_name = repo["name"]
      if repo_name in existing_repos:
          already_existing.append(repo_name)
      else:
          new_repos.append(repo)
  \<close>
\<close>

fun separate :: "string list \<Rightarrow> json list \<Rightarrow> json list \<Rightarrow> json list \<Rightarrow> exn + (json list \<times> json list)" where
  "separate existing [] new_repos already_existing = Inr (new_repos, already_existing)"
| "separate existing (repo # rs) new_repos already_existing =
     (case py_index repo ''name'' of
        Inl e \<Rightarrow> Inl e
      | Inr repo_name \<Rightarrow>
          if name_in repo_name existing
          then separate existing rs new_repos (already_existing @ [repo_name])
          else separate existing rs (new_repos @ [repo]) already_existing)"

text \<open>
  The preparation of one clone: everything the loop body computes before it runs the
  command.
  \<^verbatim>\<open>
  repo_name = repo["name"]
  server = self.selected_config.get('server_url', '').strip()
  if not server.startswith(('http://', 'https://')):
      server = f"https://{server}"
  server = server.rstrip('/')
  owner = repo.get("owner", {}).get("login", username)
  token = self.selected_config.get('token', '')
  ...
  dest = BASE_DOWNLOAD_DIR / repo_name
  \<close>
  The division of a path by a value that is not a string raises \<^verbatim>\<open>TypeError\<close>.
\<close>

definition prepare_clone :: "dict \<Rightarrow> string \<Rightarrow> json \<Rightarrow> exn + clone_cmd" where
  "prepare_clone config username repo =
     (case py_index repo ''name'' of
        Inl e \<Rightarrow> Inl e
      | Inr repo_name \<Rightarrow>
          (case config_text config ''server_url'' of
             Inl e \<Rightarrow> Inl e
           | Inr server \<Rightarrow>
               (case py_get repo ''owner'' (JObj []) of
                  Inl e \<Rightarrow> Inl e
                | Inr owner_data \<Rightarrow>
                    (case py_get owner_data ''login'' (JStr username) of
                       Inl e \<Rightarrow> Inl e
                     | Inr owner \<Rightarrow>
                         (case repo_name of
                            JStr n \<Rightarrow>
                              Inr \<lparr>clone_server = normalise_server server, clone_username = username,
                                   clone_token = dict_get config ''token'' (JStr []), clone_owner = owner,
                                   clone_repo = n, dest = n\<rparr>
                          | _ \<Rightarrow> Inl type_error)))))"

text \<open>
  The clone loop. Its state is the list of the commands run so far, the list of the
  failures, and the dialogue.
  \<^verbatim>\<open>
  for i, repo in enumerate(new_repos):
      ...
      self.status_label.setText(f"Cloning {repo_name}...")
      try:
          result = subprocess.run(git_cmd, check=True, capture_output=True, text=True, timeout=300)
          self.downloaded_count += 1
      except subprocess.CalledProcessError as e:
          failed_repos.append(f"{repo_name}: {e.stderr.strip() if e.stderr else str(e)}")
      except subprocess.TimeoutExpired:
          failed_repos.append(f"{repo_name}: Clone timed out after 5 minutes")
      except Exception as e:
          failed_repos.append(f"{repo_name}: {str(e)}")
      self.progress_bar.setValue(i + 1)
  \<close>
\<close>

definition failure_text :: "string \<Rightarrow> clone_outcome \<Rightarrow> string list" where
  "failure_text n r =
     (case r of
        Cloned \<Rightarrow> []
      | CalledProcessError t \<Rightarrow> [n @ '': '' @ t]
      | TimeoutExpired \<Rightarrow> [n @ '': Clone timed out after 5 minutes'']
      | OtherFailure t \<Rightarrow> [n @ '': '' @ t])"

fun clone_loop ::
  "cloner \<Rightarrow> dict \<Rightarrow> string \<Rightarrow> json list \<Rightarrow> nat \<Rightarrow> clone_cmd list \<Rightarrow> string list \<Rightarrow> user_manager
     \<Rightarrow> exn option \<times> clone_cmd list \<times> string list \<times> user_manager" where
  "clone_loop g config username [] i cmds failed m = (None, cmds, failed, m)"
| "clone_loop g config username (repo # rs) i cmds failed m =
     (case prepare_clone config username repo of
        Inl e \<Rightarrow> (Some e, cmds, failed, m)
      | Inr c \<Rightarrow>
          (let rep = g cmds c;
               m1 = m\<lparr>um_status_label := CloningStatus (clone_repo c),
                      files := write_dest (dest c) (dest_after rep) (files m),
                      downloaded_count := downloaded_count m + (if outcome rep = Cloned then 1 else 0),
                      progress_value := i + 1\<rparr>
           in clone_loop g config username rs (i + 1) (cmds @ [c])
                (failed @ failure_text (clone_repo c) (outcome rep)) m1))"

text \<open>
  \<^verbatim>\<open>
  def download_selected(self):
      selected_repos = []
      for i in range(self.repo_list.count()):
          item = self.repo_list.item(i)
          if item.checkState() == Qt.CheckState.Checked:
              selected_repos.append(item.data(Qt.ItemDataRole.UserRole))
      if not selected_repos:
          QMessageBox.information(self, "No Selection", ...)
          return
      username = self.username_input.text().strip()
      if not username:
          QMessageBox.warning(self, "Error", "Please provide username.")
          return
      if not self.selected_config:
          QMessageBox.warning(self, "Error", "Please select a Gitea server configuration.")
          return
      BASE_DOWNLOAD_DIR.mkdir(parents=True, exist_ok=True)
      existing_repos = get_existing_repo_names()
      new_repos = []
      already_existing = []
      for repo in selected_repos: ...
      if already_existing:
          existing_list = ", ".join(already_existing)
          QMessageBox.information(self, "Some Repos Already Exist", ...)
      if not new_repos:
          QMessageBox.information(self, "No New Repos", ...)
          return
      self.progress_bar.setVisible(True)
      self.progress_bar.setMaximum(len(new_repos))
      self.progress_bar.setValue(0)
      self.download_button.setEnabled(False)
      self.downloaded_count = 0
      failed_repos = []
      for i, repo in enumerate(new_repos): ...
      self.progress_bar.setVisible(False)
      self.download_button.setEnabled(True)
      if failed_repos:
          QMessageBox.warning(self, "Download Complete with Errors", ...)
      else:
          QMessageBox.information(self, "Download Complete", ...)
      self.status_label.setText(f"Downloaded {self.downloaded_count} repositories.")
      if self.downloaded_count > 0:
          from repo_utils import update_repo_json
          update_repo_json()
          self.repo_changed.emit()
  \<close>
  The result is the exception that left the function, if any, the list of the clone
  commands run, in order, and the dialogue.
\<close>

definition selected_repos :: "user_manager \<Rightarrow> json list" where
  "selected_repos m = map snd (filter fst (repo_list m))"

definition existing_texts :: "json list \<Rightarrow> string list" where
  "existing_texts vs = map (\<lambda>v. case v of JStr n \<Rightarrow> n | _ \<Rightarrow> []) vs"

definition finish_download :: "string list \<Rightarrow> user_manager \<Rightarrow> user_manager" where
  "finish_download failed m =
     (let m1 = m\<lparr>progress_visible := False, download_enabled := True\<rparr>;
          m2 = warn (if failed \<noteq> [] then CompleteWithErrorsWarning (downloaded_count m1) failed
                     else CompleteInformation (downloaded_count m1)) m1;
          m3 = m2\<lparr>um_status_label := DownloadedStatus (downloaded_count m2)\<rparr>
      in if downloaded_count m3 > 0
         then m3\<lparr>files := update_repo_json (files m3), repo_changed_emitted := repo_changed_emitted m3 + 1\<rparr>
         else m3)"

definition download_selected :: "cloner \<Rightarrow> user_manager \<Rightarrow> exn option \<times> clone_cmd list \<times> user_manager" where
  "download_selected g m =
     (let username = strip (username_input m)
      in if selected_repos m = [] then (None, [], warn NoSelectionInformation m)
         else if username = [] then (None, [], warn ProvideUsernameWarning m)
         else if \<not> truthy (selected_config m) then (None, [], warn SelectServerWarning m)
         else
           (let m1 = m\<lparr>files := mkdir_base (files m)\<rparr>;
                existing_repos = get_existing_repo_names (files m1)
            in case separate existing_repos (selected_repos m1) [] [] of
                 Inl e \<Rightarrow> (Some e, [], m1)
               | Inr (new_repos, already_existing) \<Rightarrow>
                   (let m2 = (if already_existing \<noteq> []
                              then warn (SomeExistInformation (existing_texts already_existing)) m1 else m1)
                    in if new_repos = [] then (None, [], warn NoNewReposInformation m2)
                       else
                         (let m3 = m2\<lparr>progress_visible := True, progress_maximum := length new_repos,
                                       progress_value := 0, download_enabled := False,
                                       downloaded_count := 0\<rparr>
                          in case clone_loop g (the (selected_config m3)) username new_repos 0 [] [] m3 of
                               (Some e, cmds, failed, m4) \<Rightarrow> (Some e, cmds, m4)
                             | (None, cmds, failed, m4) \<Rightarrow> (None, cmds, finish_download failed m4)))))"

section \<open>The log worker thread (git\_operations.py)\<close>

text \<open>
  A commit of the Git library, as far as the worker reads it, and an element of the list
  the worker sends: the dictionary with the keys \<^verbatim>\<open>hash\<close>, \<^verbatim>\<open>message\<close>, \<^verbatim>\<open>author\<close>,
  \<^verbatim>\<open>date\<close> and \<^verbatim>\<open>full_hash\<close>.
\<close>

record 'd commit =
  hexsha :: string
  commit_message :: string
  author_name :: string
  committed_datetime :: 'd

record log_entry =
  hash :: string
  message :: string
  author :: string
  date :: string
  full_hash :: string

text \<open>The two signals of the thread, \<^verbatim>\<open>log_ready = pyqtSignal(list)\<close> and
  \<^verbatim>\<open>error_occurred = pyqtSignal(str)\<close>.\<close>

datatype signal = log_ready "log_entry list" | error_occurred string

text \<open>
  \<^verbatim>\<open>Repo(self.repo_path)\<close> raises, with a text, or returns a repository. Of a repository
  the worker needs what \<^verbatim>\<open>repo.iter_commits\<close> gives: the call raises at once when
  \<^verbatim>\<open>HEAD\<close> cannot be resolved or Git cannot be started (\<open>rev_error\<close>); otherwise the
  history from \<^verbatim>\<open>HEAD\<close> is a finite sequence of steps, newest commit first, each of which
  yields a commit or raises with a text (from the iteration or from reading the commit).
  \<open>strftime\<close> stands for \<^verbatim>\<open>committed_datetime.strftime('%Y-%m-%d %H:%M:%S')\<close>.
\<close>

record 'd repo =
  rev_error :: "string option"
  history :: "(string + 'd commit) list"

text \<open>
  \<^verbatim>\<open>repo.iter_commits(max_count=n)\<close>. The Git library hands the number to
  \<^verbatim>\<open>git rev-list --max-count=n\<close>, which stops after \<open>n\<close> commits when \<open>n\<close> is zero or more
  and lists the whole history when \<open>n\<close> is negative. The steps after the last commit
  listed are never made.
\<close>

definition iter_commits_max_count :: "'d repo \<Rightarrow> int \<Rightarrow> string + (string + 'd commit) list" where
  "iter_commits_max_count repo max_count =
     (case rev_error repo of
        Some e \<Rightarrow> Inl e
      | None \<Rightarrow> Inr (if max_count < 0 then history repo else take (nat max_count) (history repo)))"

definition commit_entry :: "('d \<Rightarrow> string) \<Rightarrow> 'd commit \<Rightarrow> log_entry" where
  "commit_entry strftime c =
     \<lparr>hash = take 8 (hexsha c), message = strip (commit_message c), author = author_name c,
      date = strftime (committed_datetime c), full_hash = hexsha c\<rparr>"

fun collect_commits :: "('d \<Rightarrow> string) \<Rightarrow> (string + 'd commit) list \<Rightarrow> log_entry list \<Rightarrow> string + log_entry list" where
  "collect_commits strftime [] commits = Inr commits"
| "collect_commits strftime (Inl e # steps) commits = Inl e"
| "collect_commits strftime (Inr c # steps) commits =
     collect_commits strftime steps (commits @ [commit_entry strftime c])"

text \<open>
  \<^verbatim>\<open>
  def run(self):
      try:
          repo = Repo(self.repo_path)
          commits = []
          for commit in repo.iter_commits(max_count=self.max_commits):
              commits.append({
                  'hash': commit.hexsha[:8],
                  'message': commit.message.strip(),
                  'author': commit.author.name,
                  'date': commit.committed_datetime.strftime('%Y-%m-%d %H:%M:%S'),
                  'full_hash': commit.hexsha
              })
          self.log_ready.emit(commits)
      except Exception as e:
          self.error_occurred.emit(str(e))
  \<close>
  The result is the list of the signals emitted, in order. Emitting a signal is taken
  not to raise.
\<close>

definition git_log_thread_run ::
  "(string \<Rightarrow> string + 'd repo) \<Rightarrow> ('d \<Rightarrow> string) \<Rightarrow> string \<Rightarrow> int \<Rightarrow> signal list" where
  "git_log_thread_run Repo strftime repo_path max_commits =
     (case Repo repo_path of
        Inl e \<Rightarrow> [error_occurred e]
      | Inr repo \<Rightarrow>
          (case iter_commits_max_count repo max_commits of
             Inl e \<Rightarrow> [error_occurred e]
           | Inr steps \<Rightarrow>
               (case collect_commits strftime steps [] of
                  Inl e \<Rightarrow> [error_occurred e]
                | Inr commits \<Rightarrow> [log_ready commits])))"

text \<open>
  The first exception among the steps of an iteration, and the commits yielded before it
  (all of them when no step raises).
\<close>

fun first_error :: "(string + 'a) list \<Rightarrow> string option" where
  "first_error [] = None"
| "first_error (Inl e # steps) = Some e"
| "first_error (Inr c # steps) = first_error steps"

fun yielded :: "(string + 'a) list \<Rightarrow> 'a list" where
  "yielded [] = []"
| "yielded (Inl e # steps) = []"
| "yielded (Inr c # steps) = c # yielded steps"

section \<open>Git commands and dialogs\<close>

text \<open>
  What an operation does to the outside, in order: a command run through the Git
  library (\<^verbatim>\<open>repo.git.revert('--abort')\<close> is \<open>Git [''revert'', ''--abort'']\<close>), a commit
  query (\<^verbatim>\<open>repo.iter_commits(rev)\<close>), a message box, a line added to the output pane, the
  start of the log thread. A warning and an information carry title and text; a question
  with the buttons Yes and No and a message box with custom buttons carry the title. Long
  fixed texts are shortened, and symbols outside ASCII are left out.
\<close>

datatype event =
    Git "string list"
  | IterCommits string
  | Warning string string
  | Information string string
  | Question string
  | Choice string
  | Output string
  | LogThreadStarted int

text \<open>
  The button that closes a message box: Yes or No for a question; the first, second or
  third action button, or the rejecting one, for a box with custom buttons.
\<close>

datatype button = Yes | No | First | Second | Third | Reject

datatype head = OnBranch string | Detached | HeadError string

text \<open>
  The repository, the user and the Python runtime. Each answer may depend on everything
  that happened before in the operation. A command returns its output (\<open>Inr\<close>) or raises
  with a text (\<open>Inl\<close>); a commit query returns the number of commits listed or raises.
  \<open>int_of\<close> is Python's \<^verbatim>\<open>int\<close> on a string, \<open>None\<close> where it raises \<^verbatim>\<open>ValueError\<close>.
  \<open>detached_head\<close> stands for all that \<open>handle_detached_head_push\<close> does; it catches every
  exception itself. \<open>repo_error\<close> is the text of the exception of \<^verbatim>\<open>git.Repo(repo_path)\<close>,
  if it raises.
\<close>

record world =
  git_result :: "event list \<Rightarrow> string list \<Rightarrow> string + string"
  commits_result :: "event list \<Rightarrow> string \<Rightarrow> string + nat"
  clicked :: "event list \<Rightarrow> button"
  head_state :: "event list \<Rightarrow> head"
  int_of :: "string \<Rightarrow> int option"
  detached_head :: "event list \<Rightarrow> event list"
  repo_error :: "string option"

section \<open>Reverting a commit (git\_operations.py)\<close>

text \<open>
  The fields of the panel that the revert operations read and write. \<open>repo_path\<close> is empty
  and \<open>git_repo\<close> is false as long as no repository is set (both are \<^verbatim>\<open>None\<close> then).
\<close>

record git_panel =
  repo_path :: string
  git_repo :: bool
  commit_hash_input :: string
  max_commits_input :: string
  continue_revert_visible :: bool
  trace :: "event list"

definition emit :: "event \<Rightarrow> git_panel \<Rightarrow> git_panel" where
  "emit ev p = p\<lparr>trace := trace p @ [ev]\<rparr>"

text \<open>
  \<^verbatim>\<open>self.git_repo.git.<command>(...)\<close>. Without a repository the attribute access raises
  \<^verbatim>\<open>AttributeError: 'NoneType' object has no attribute 'git'\<close> and no command runs.
\<close>

definition panel_git :: "world \<Rightarrow> string list \<Rightarrow> git_panel \<Rightarrow> (string + string) \<times> git_panel" where
  "panel_git w args p =
     (if git_repo p then (git_result w (trace p) args, emit (Git args) p)
      else (Inl ''NoneType object has no attribute git'', p))"

text \<open>
  \<^verbatim>\<open>
  def show_error(self, message):
      QMessageBox.warning(self, "Error", message)
  def show_success(self, message):
      QMessageBox.information(self, "Success", message)
  \<close>
\<close>

definition show_error :: "string \<Rightarrow> git_panel \<Rightarrow> git_panel" where
  "show_error m p = emit (Warning ''Error'' m) p"

definition show_success :: "string \<Rightarrow> git_panel \<Rightarrow> git_panel" where
  "show_success m p = emit (Information ''Success'' m) p"

text \<open>
  \<^verbatim>\<open>
  def refresh_git_log(self):
      if not self.repo_path:
          return
      try:
          max_commits = int(self.max_commits_input.text() or "50")
          self.log_thread = GitLogThread(self.repo_path, max_commits)
          self.log_thread.log_ready.connect(self.display_git_log)
          self.log_thread.error_occurred.connect(self.show_error)
          self.log_thread.start()
      except ValueError:
          self.show_error("Invalid number of commits")
  \<close>
  The thread runs beside the operation; what its signal does later is not part of it.
\<close>

definition refresh_git_log :: "world \<Rightarrow> git_panel \<Rightarrow> git_panel" where
  "refresh_git_log w p =
     (if repo_path p = [] then p
      else (case int_of w (if max_commits_input p = [] then ''50'' else max_commits_input p) of
              None \<Rightarrow> show_error ''Invalid number of commits'' p
            | Some n \<Rightarrow> emit (LogThreadStarted n) p))"

text \<open>
  \<^verbatim>\<open>
  def refresh_git_status(self):
      if not self.git_repo:
          return
      try:
          self.status_list.clear()
          status = self.git_repo.git.status(porcelain=True)
          ...
      except Exception as e:
          self.show_error(f"Error checking status: {str(e)}")
  \<close>
  The items of the status list are computed from the output of the command and are not
  kept here.
\<close>

definition refresh_git_status :: "world \<Rightarrow> git_panel \<Rightarrow> git_panel" where
  "refresh_git_status w p =
     (if \<not> git_repo p then p
      else (case panel_git w [''status'', ''--porcelain''] p of
              (Inl e, p1) \<Rightarrow> show_error (''Error checking status: '' @ e) p1
            | (Inr status, p1) \<Rightarrow> p1))"

text \<open>
  \<^verbatim>\<open>
  def skip_revert(self):
      try:
          self.git_repo.git.revert('--skip')
          self.revert_output.append("Revert operation skipped")
          self.refresh_git_log()
          self.refresh_git_status()
          self.show_success("Revert operation skipped")
          self.continue_revert_btn.setVisible(False)
      except Exception as e:
          self.revert_output.append(f"Error skipping revert: {str(e)}")
          self.show_error(f"Error skipping revert: {str(e)}")
  \<close>
\<close>

definition skip_revert :: "world \<Rightarrow> git_panel \<Rightarrow> git_panel" where
  "skip_revert w p =
     (case panel_git w [''revert'', ''--skip''] p of
        (Inl e, p1) \<Rightarrow>
          show_error (''Error skipping revert: '' @ e) (emit (Output (''Error skipping revert: '' @ e)) p1)
      | (Inr r, p1) \<Rightarrow>
          (show_success ''Revert operation skipped''
             (refresh_git_status w (refresh_git_log w (emit (Output ''Revert operation skipped'') p1))))
           \<lparr>continue_revert_visible := False\<rparr>)"

text \<open>
  \<^verbatim>\<open>
  def abort_revert(self):
      try:
          self.git_repo.git.revert('--abort')
          self.revert_output.append("Revert operation aborted")
          self.refresh_git_log()
          self.refresh_git_status()
          self.show_success("Revert operation aborted")
          self.continue_revert_btn.setVisible(False)
      except Exception as e:
          self.revert_output.append(f"Error aborting revert: {str(e)}")
          self.show_error(f"Error aborting revert: {str(e)}")
  \<close>
\<close>

definition abort_revert :: "world \<Rightarrow> git_panel \<Rightarrow> git_panel" where
  "abort_revert w p =
     (case panel_git w [''revert'', ''--abort''] p of
        (Inl e, p1) \<Rightarrow>
          show_error (''Error aborting revert: '' @ e) (emit (Output (''Error aborting revert: '' @ e)) p1)
      | (Inr r, p1) \<Rightarrow>
          (show_success ''Revert operation aborted''
             (refresh_git_status w (refresh_git_log w (emit (Output ''Revert operation aborted'') p1))))
           \<lparr>continue_revert_visible := False\<rparr>)"

text \<open>
  \<^verbatim>\<open>
  def continue_revert(self):
      try:
          self.git_repo.git.add('.')
          self.revert_output.append("Resolved files added to staging area")
          result = self.git_repo.git.revert('--continue')
          self.revert_output.append(f"Revert completed: {result}")
          self.refresh_git_log()
          self.refresh_git_status()
          self.show_success("Revert completed successfully after resolving conflicts")
          self.continue_revert_btn.setVisible(False)
      except Exception as e:
          self.revert_output.append(f"Error continuing revert: {str(e)}")
          self.show_error(f"Error continuing revert: {str(e)}")
  \<close>
\<close>

definition continue_failed :: "string \<Rightarrow> git_panel \<Rightarrow> git_panel" where
  "continue_failed e p =
     show_error (''Error continuing revert: '' @ e) (emit (Output (''Error continuing revert: '' @ e)) p)"

definition continue_revert :: "world \<Rightarrow> git_panel \<Rightarrow> git_panel" where
  "continue_revert w p =
     (case panel_git w [''add'', ''.''] p of
        (Inl e, p1) \<Rightarrow> continue_failed e p1
      | (Inr r, p1) \<Rightarrow>
          (case panel_git w [''revert'', ''--continue''] (emit (Output ''Resolved files added to staging area'') p1) of
             (Inl e, p2) \<Rightarrow> continue_failed e p2
           | (Inr result, p2) \<Rightarrow>
               (show_success ''Revert completed successfully after resolving conflicts''
                  (refresh_git_status w (refresh_git_log w (emit (Output (''Revert completed: '' @ result)) p2))))
                \<lparr>continue_revert_visible := False\<rparr>))"

text \<open>
  \<^verbatim>\<open>
  def resolve_revert_conflicts(self):
      self.revert_output.append("... MANUAL CONFLICT RESOLUTION REQUIRED")
      ...
      self.continue_revert_btn.setVisible(True)
      QMessageBox.information(self, "Resolve Conflicts",
          "Please resolve the conflicts in your files manually, then click the 'Continue Revert' button below.")
  \<close>
  The lines of the instructions are one event.
\<close>

definition resolve_revert_conflicts :: "git_panel \<Rightarrow> git_panel" where
  "resolve_revert_conflicts p =
     emit (Information ''Resolve Conflicts''
             ''Please resolve the conflicts in your files manually, then click the Continue Revert button below.'')
       ((emit (Output ''MANUAL CONFLICT RESOLUTION REQUIRED'') p)\<lparr>continue_revert_visible := True\<rparr>)"

text \<open>
  \<^verbatim>\<open>
  def handle_revert_conflict(self, commit_hash):
      self.revert_output.append(...)            # the explanation, several lines
      msg = QMessageBox(self)
      msg.setWindowTitle("Revert Conflict")
      ...
      resolve_btn = msg.addButton("... Resolve Conflicts", QMessageBox.ButtonRole.ActionRole)
      skip_btn = msg.addButton("... Skip Revert", QMessageBox.ButtonRole.ActionRole)
      abort_btn = msg.addButton("... Abort Revert", QMessageBox.ButtonRole.ActionRole)
      cancel_btn = msg.addButton("Cancel", QMessageBox.ButtonRole.RejectRole)
      msg.exec()
      clicked_button = msg.clickedButton()
      if clicked_button == resolve_btn:
          self.resolve_revert_conflicts()
      elif clicked_button == skip_btn:
          self.skip_revert()
      elif clicked_button == abort_btn:
          self.abort_revert()
  \<close>
\<close>

definition handle_revert_conflict :: "world \<Rightarrow> string \<Rightarrow> git_panel \<Rightarrow> git_panel" where
  "handle_revert_conflict w commit_hash p =
     (let p1 = emit (Choice ''Revert Conflict'') (emit (Output ''MERGE CONFLICT DETECTED'') p)
      in case clicked w (trace p1) of
           First \<Rightarrow> resolve_revert_conflicts p1
         | Second \<Rightarrow> skip_revert w p1
         | Third \<Rightarrow> abort_revert w p1
         | _ \<Rightarrow> p1)"

text \<open>
  \<^verbatim>\<open>
  def revert_commit(self):
      commit_hash = self.commit_hash_input.text().strip()
      if not commit_hash:
          self.show_error("Please enter a commit hash")
          return
      reply = QMessageBox.question(self, "Revert Commit",
          f"Are you sure you want to revert commit '{commit_hash}'?", Yes | No)
      if reply == QMessageBox.StandardButton.Yes:
          try:
              result = self.git_repo.git.revert(commit_hash, '--no-edit')
              self.revert_output.append(f"Commit reverted: {result}")
              self.refresh_git_log()
              self.refresh_git_status()
              self.show_success("Commit reverted successfully")
          except Exception as e:
              error_msg = str(e)
              self.revert_output.append(f"Revert failed: {error_msg}")
              if "CONFLICT" in error_msg or "conflict" in error_msg.lower():
                  self.handle_revert_conflict(commit_hash)
              else:
                  self.show_error(f"Error reverting commit: {error_msg}")
  \<close>
\<close>

definition is_conflict :: "string \<Rightarrow> bool" where
  "is_conflict error_msg = (contains error_msg ''CONFLICT'' \<or> contains (lower error_msg) ''conflict'')"

definition revert_commit :: "world \<Rightarrow> git_panel \<Rightarrow> git_panel" where
  "revert_commit w p =
     (let commit_hash = strip (commit_hash_input p)
      in if commit_hash = [] then show_error ''Please enter a commit hash'' p
         else
           (let p1 = emit (Question ''Revert Commit'') p
            in if clicked w (trace p1) \<noteq> Yes then p1
               else
                 (case panel_git w [''revert'', commit_hash, ''--no-edit''] p1 of
                    (Inr result, p2) \<Rightarrow>
                      show_success ''Commit reverted successfully''
                        (refresh_git_status w (refresh_git_log w (emit (Output (''Commit reverted: '' @ result)) p2)))
                  | (Inl error_msg, p2) \<Rightarrow>
                      (let p3 = emit (Output (''Revert failed: '' @ error_msg)) p2
                       in if is_conflict error_msg then handle_revert_conflict w commit_hash p3
                          else show_error (''Error reverting commit: '' @ error_msg) p3))))"

section \<open>Pushing from the repository browser (window.py)\<close>

text \<open>
  The operations of the browser work on the repository opened by \<open>push_repo_changes\<close>.
  Each takes the events so far and returns them extended.
\<close>

definition run_git :: "world \<Rightarrow> string list \<Rightarrow> event list \<Rightarrow> (string + string) \<times> event list" where
  "run_git w args tr = (git_result w tr args, tr @ [Git args])"

definition iter_commits :: "world \<Rightarrow> string \<Rightarrow> event list \<Rightarrow> (string + nat) \<times> event list" where
  "iter_commits w revs tr = (commits_result w tr revs, tr @ [IterCommits revs])"

definition ahead_of_origin :: "string \<Rightarrow> string" where
  "ahead_of_origin branch = ''origin/'' @ branch @ ''..'' @ branch"

definition behind_origin :: "string \<Rightarrow> string" where
  "behind_origin branch = branch @ ''..origin/'' @ branch"

text \<open>
  \<^verbatim>\<open>
  def force_push_changes(self, repo, repo_path, current_branch):
      try:
          reply = QMessageBox.question(self, "Force Push Warning",
              f"... Delete {len(list(repo.iter_commits(f'{current_branch}..origin/{current_branch}')))} commit(s) ...",
              QMessageBox.StandardButton.Yes | QMessageBox.StandardButton.No)
          if reply == QMessageBox.StandardButton.Yes:
              repo.git.push('origin', current_branch, '--force-with-lease')
              QMessageBox.information(self, "Success", "Force push completed - server history has been overwritten")
          else:
              QMessageBox.information(self, "Cancelled", "Force push cancelled")
      except Exception as e:
          QMessageBox.warning(self, "Error", f"Failed to force push: {str(e)}")
  \<close>
\<close>

definition force_push_changes :: "world \<Rightarrow> string \<Rightarrow> event list \<Rightarrow> event list" where
  "force_push_changes w current_branch tr =
     (case iter_commits w (behind_origin current_branch) tr of
        (Inl e, tr1) \<Rightarrow> tr1 @ [Warning ''Error'' (''Failed to force push: '' @ e)]
      | (Inr n, tr1) \<Rightarrow>
          (let tr2 = tr1 @ [Question ''Force Push Warning'']
           in if clicked w tr2 = Yes then
                (case run_git w [''push'', ''origin'', current_branch, ''--force-with-lease''] tr2 of
                   (Inl e, tr3) \<Rightarrow> tr3 @ [Warning ''Error'' (''Failed to force push: '' @ e)]
                 | (Inr r, tr3) \<Rightarrow>
                     tr3 @ [Information ''Success'' ''Force push completed - server history has been overwritten''])
              else tr2 @ [Information ''Cancelled'' ''Force push cancelled'']))"

text \<open>
  \<^verbatim>\<open>
  def pull_and_merge_push(self, repo, repo_path, current_branch):
      try:
          repo.git.pull('origin', current_branch, '--no-rebase')
          repo.git.push('origin', current_branch)
          QMessageBox.information(self, "Success", "Pulled, merged, and pushed successfully")
      except Exception as e:
          error_msg = str(e)
          if "merge conflict" in error_msg.lower():
              QMessageBox.warning(self, "Merge Conflict", f"Merge conflict occurred during pull:\n{error_msg}\n\n...")
          else:
              QMessageBox.warning(self, "Error", f"Failed to pull and merge: {str(e)}")
  \<close>
\<close>

definition merge_failed :: "string \<Rightarrow> event" where
  "merge_failed error_msg =
     (if contains (lower error_msg) ''merge conflict''
      then Warning ''Merge Conflict'' (''Merge conflict occurred during pull: '' @ error_msg)
      else Warning ''Error'' (''Failed to pull and merge: '' @ error_msg))"

definition pull_and_merge_push :: "world \<Rightarrow> string \<Rightarrow> event list \<Rightarrow> event list" where
  "pull_and_merge_push w current_branch tr =
     (case run_git w [''pull'', ''origin'', current_branch, ''--no-rebase''] tr of
        (Inl e, tr1) \<Rightarrow> tr1 @ [merge_failed e]
      | (Inr r, tr1) \<Rightarrow>
          (case run_git w [''push'', ''origin'', current_branch] tr1 of
             (Inl e, tr2) \<Rightarrow> tr2 @ [merge_failed e]
           | (Inr r2, tr2) \<Rightarrow> tr2 @ [Information ''Success'' ''Pulled, merged, and pushed successfully'']))"

text \<open>
  \<^verbatim>\<open>
  def pull_and_rebase_push(self, repo, repo_path, current_branch):
      try:
          repo.git.pull('origin', current_branch, '--rebase')
          repo.git.push('origin', current_branch)
          QMessageBox.information(self, "Success", "Pulled, rebased, and pushed successfully")
      except Exception as e:
          error_msg = str(e)
          if "rebase conflict" in error_msg.lower() or "conflict" in error_msg.lower():
              QMessageBox.warning(self, "Rebase Conflict", f"Rebase conflict occurred during pull:\n{error_msg}\n\n...")
          else:
              QMessageBox.warning(self, "Error", f"Failed to pull and rebase: {str(e)}")
  \<close>
\<close>

definition rebase_failed :: "string \<Rightarrow> event" where
  "rebase_failed error_msg =
     (if contains (lower error_msg) ''rebase conflict'' \<or> contains (lower error_msg) ''conflict''
      then Warning ''Rebase Conflict'' (''Rebase conflict occurred during pull: '' @ error_msg)
      else Warning ''Error'' (''Failed to pull and rebase: '' @ error_msg))"

definition pull_and_rebase_push :: "world \<Rightarrow> string \<Rightarrow> event list \<Rightarrow> event list" where
  "pull_and_rebase_push w current_branch tr =
     (case run_git w [''pull'', ''origin'', current_branch, ''--rebase''] tr of
        (Inl e, tr1) \<Rightarrow> tr1 @ [rebase_failed e]
      | (Inr r, tr1) \<Rightarrow>
          (case run_git w [''push'', ''origin'', current_branch] tr1 of
             (Inl e, tr2) \<Rightarrow> tr2 @ [rebase_failed e]
           | (Inr r2, tr2) \<Rightarrow> tr2 @ [Information ''Success'' ''Pulled, rebased, and pushed successfully'']))"

text \<open>
  The dispatch on the button of the resolution dialog.
  \<^verbatim>\<open>
  if msg.clickedButton() == force_push_btn:
      self.force_push_changes(repo, repo_path, current_branch)
  elif msg.clickedButton() == pull_merge_btn:
      self.pull_and_merge_push(repo, repo_path, current_branch)
  elif msg.clickedButton() == pull_rebase_btn:
      self.pull_and_rebase_push(repo, repo_path, current_branch)
  # Cancel does nothing
  \<close>
\<close>

definition resolve_push :: "world \<Rightarrow> string \<Rightarrow> button \<Rightarrow> event list \<Rightarrow> event list" where
  "resolve_push w current_branch b tr =
     (case b of
        First \<Rightarrow> force_push_changes w current_branch tr
      | Second \<Rightarrow> pull_and_merge_push w current_branch tr
      | Third \<Rightarrow> pull_and_rebase_push w current_branch tr
      | _ \<Rightarrow> tr)"

text \<open>
  \<^verbatim>\<open>
  def handle_non_fast_forward_push(self, repo, repo_path, current_branch, error_msg):
      try:
          local_commits = list(repo.iter_commits(f'origin/{current_branch}..{current_branch}'))
          remote_commits = list(repo.iter_commits(f'{current_branch}..origin/{current_branch}'))
          ...
          msg = QMessageBox(self)
          msg.setWindowTitle("Non-Fast-Forward Push - Choose Resolution")
          ...
          force_push_btn = msg.addButton("... Force Push (Overwrite Server)", QMessageBox.ButtonRole.ActionRole)
          pull_merge_btn = msg.addButton("... Pull & Merge (Keep Both)", QMessageBox.ButtonRole.ActionRole)
          pull_rebase_btn = msg.addButton("... Pull & Rebase (Clean History)", QMessageBox.ButtonRole.ActionRole)
          cancel_btn = msg.addButton("... Cancel", QMessageBox.ButtonRole.RejectRole)
          msg.exec()
          ...
      except Exception as e:
          QMessageBox.warning(self, "Error", f"Failed to handle non-fast-forward push: {str(e)}")
  \<close>
\<close>

definition resolution_title :: string where
  "resolution_title = ''Non-Fast-Forward Push - Choose Resolution''"

definition handle_failed :: "string \<Rightarrow> event" where
  "handle_failed e = Warning ''Error'' (''Failed to handle non-fast-forward push: '' @ e)"

definition handle_non_fast_forward_push :: "world \<Rightarrow> string \<Rightarrow> string \<Rightarrow> event list \<Rightarrow> event list" where
  "handle_non_fast_forward_push w current_branch error_msg tr =
     (case iter_commits w (ahead_of_origin current_branch) tr of
        (Inl e, tr1) \<Rightarrow> tr1 @ [handle_failed e]
      | (Inr local_count, tr1) \<Rightarrow>
          (case iter_commits w (behind_origin current_branch) tr1 of
             (Inl e, tr2) \<Rightarrow> tr2 @ [handle_failed e]
           | (Inr remote_count, tr2) \<Rightarrow>
               (let tr3 = tr2 @ [Choice resolution_title]
                in resolve_push w current_branch (clicked w tr3) tr3)))"

text \<open>
  The handler of the inner \<^verbatim>\<open>try\<close> of \<open>push_repo_changes\<close>, with the handler of the outer
  one for what it raises again.
  \<^verbatim>\<open>
  except Exception as e:
      error_msg = str(e)
      if "no upstream branch" in error_msg.lower():
          QMessageBox.information(self, "No Remote", "No remote repository configured for this branch")
      elif "non-fast-forward" in error_msg or "rejected" in error_msg:
          self.handle_non_fast_forward_push(repo, repo_path, current_branch, error_msg)
      else:
          raise e
  ...
  except Exception as e:
      QMessageBox.warning(self, "Error", f"Failed to push changes: {str(e)}")
  \<close>
  The second argument is the branch name, if the variable \<^verbatim>\<open>current_branch\<close> was assigned
  before the exception; reading it otherwise raises \<^verbatim>\<open>UnboundLocalError\<close>, which the outer
  handler reports.
\<close>

definition push_failed :: "string \<Rightarrow> event" where
  "push_failed e = Warning ''Error'' (''Failed to push changes: '' @ e)"

definition is_rejected :: "string \<Rightarrow> bool" where
  "is_rejected error_msg = (contains error_msg ''non-fast-forward'' \<or> contains error_msg ''rejected'')"

definition no_upstream :: "string \<Rightarrow> bool" where
  "no_upstream error_msg = contains (lower error_msg) ''no upstream branch''"

definition push_error :: "world \<Rightarrow> string option \<Rightarrow> string \<Rightarrow> event list \<Rightarrow> event list" where
  "push_error w current_branch error_msg tr =
     (if no_upstream error_msg
      then tr @ [Information ''No Remote'' ''No remote repository configured for this branch'']
      else if is_rejected error_msg then
        (case current_branch of
           None \<Rightarrow> tr @ [push_failed ''UnboundLocalError'']
         | Some b \<Rightarrow> handle_non_fast_forward_push w b error_msg tr)
      else tr @ [push_failed error_msg])"

text \<open>
  \<^verbatim>\<open>
  def push_repo_changes(self, repo_path):
      try:
          import git
          repo = git.Repo(repo_path)
          try:
              try:
                  current_branch = repo.active_branch.name
                  is_detached = False
              except TypeError:
                  is_detached = True
                  current_branch = None
              if is_detached:
                  self.handle_detached_head_push(repo, repo_path)
                  return
              ahead = repo.iter_commits(f'origin/{current_branch}..{current_branch}')
              commits_ahead = list(ahead)
              if not commits_ahead:
                  QMessageBox.information(self, "No Changes", "No changes to push to the server")
                  return
              repo.git.push('origin', current_branch)
              QMessageBox.information(self, "Success", f"Pushed {len(commits_ahead)} commits to server")
          except Exception as e:
              ...
      except Exception as e:
          QMessageBox.warning(self, "Error", f"Failed to push changes: {str(e)}")
  \<close>
  The result is the list of the events of the operation.
\<close>

definition push_repo_changes :: "world \<Rightarrow> event list" where
  "push_repo_changes w =
     (case repo_error w of
        Some e \<Rightarrow> [push_failed e]
      | None \<Rightarrow>
          (case head_state w [] of
             HeadError e \<Rightarrow> push_error w None e []
           | Detached \<Rightarrow> detached_head w []
           | OnBranch current_branch \<Rightarrow>
               (case iter_commits w (ahead_of_origin current_branch) [] of
                  (Inl e, tr1) \<Rightarrow> push_error w (Some current_branch) e tr1
                | (Inr n, tr1) \<Rightarrow>
                    if n = 0 then tr1 @ [Information ''No Changes'' ''No changes to push to the server'']
                    else
                      (case run_git w [''push'', ''origin'', current_branch] tr1 of
                         (Inl e, tr2) \<Rightarrow> push_error w (Some current_branch) e tr2
                       | (Inr r, tr2) \<Rightarrow>
                           tr2 @ [Information ''Success'' (''Pushed '' @ str_nat n @ '' commits to server'')]))))"

text \<open>The commands run through the Git library among the events, in order.\<close>

fun git_commands :: "event list \<Rightarrow> string list list" where
  "git_commands [] = []"
| "git_commands (Git args # evs) = args # git_commands evs"
| "git_commands (ev # evs) = git_commands evs"

text \<open>Whether a message box with the given title is among the events.\<close>

definition choice_shown :: "string \<Rightarrow> event list \<Rightarrow> bool" where
  "choice_shown title evs = (Choice title \<in> set evs)"

definition warnings_shown :: "event list \<Rightarrow> (string \<times> string) list" where
  "warnings_shown evs = concat (map (\<lambda>ev. case ev of Warning t m \<Rightarrow> [(t, m)] | _ \<Rightarrow> []) evs)"

section \<open>Properties of the settings file\<close>

lemma dict_set_new: "\<not> has_key d k \<Longrightarrow> dict_set d k v = d @ [(k, v)]"
  by (induction d) (auto simp: has_key_def)

lemma map_of_has_key: "has_key d k \<Longrightarrow> map_of d k = Some (dict_get d k dflt)"
  by (induction d) (auto simp: has_key_def dict_get_def)

lemma py_index_has_key: "has_key d k \<Longrightarrow> py_index (JObj d) k = Inr (dict_get d k dflt)"
  by (simp add: py_index_def map_of_has_key [of d k dflt])

lemma old_format_dict:
  "old_format (JObj d) =
     Some (has_key d ''server_url'' \<and> has_key d ''token'' \<and> \<not> has_key d ''api_configs'')"
  by (simp add: old_format_def py_in_def)

lemma migrate_dict:
  assumes "has_key d ''server_url''" and "has_key d ''token''" and "\<not> has_key d ''api_configs''"
  shows "migrate (JObj d) =
           Some (JObj (d @ [(''api_configs'',
             JArr [JObj [(''name'', JStr ''Default Server''),
                         (''server_url'', dict_get d ''server_url'' JNull),
                         (''token'', dict_get d ''token'' JNull)]])]))"
  using assms
  by (simp add: migrate_def py_index_has_key [of d _ JNull] dict_set_new)

subsection \<open>Writing and reading back\<close>

lemma load_members_str:
  "list_all (\<lambda>(k, v). is_str k) ms \<Longrightarrow>
     load_members ms [] acc = acc @ map (\<lambda>(k, v). (key_name k, v)) ms"
proof (induction ms arbitrary: acc)
  case Nil
  then show ?case by simp
next
  case (Cons m ms)
  obtain k v where m: "m = (k, v)" by (cases m)
  with Cons.prems obtain name where k: "k = KStr name" by (cases k) auto
  show ?case using Cons.prems Cons.IH [of "acc @ [(name, v)]"] by (simp add: m k)
qed

lemma json_dump_load_py_of [simp]: "json_dump_load (py_of j) = j"
proof (induction j)
  case (JArr xs)
  then show ?case by (simp add: map_idI)
next
  case (JObj d)
  have str: "list_all (\<lambda>(k, v). is_str k) (map (\<lambda>x. (KStr (fst x), json_dump_load (py_of (snd x)))) d)"
    by (simp add: list_all_iff split_beta)
  have "map (\<lambda>p. (fst p, json_dump_load (py_of (snd p)))) d = d"
    using JObj by (intro map_idI) (auto simp: split_beta)
  then show ?case
    using load_members_str [OF str, of "[]"] by (simp add: comp_def split_beta)
qed simp_all




subsection \<open>Loading and saving the settings\<close>

text \<open>
  C9. Loading the settings is not read-only. When the stored object has the keys
  \<^verbatim>\<open>server_url\<close> and \<^verbatim>\<open>token\<close> and no key \<^verbatim>\<open>api_configs\<close>, \<open>load_api_settings\<close> rewrites the
  file with the key \<^verbatim>\<open>api_configs\<close> added, holding exactly one configuration, named
  "Default Server", with the old server URL and token, and returns that same object. An
  object that has the key \<^verbatim>\<open>api_configs\<close> is returned as it is and the file stays as it was.
\<close>

theorem load_api_settings_migration:
  "(has_key d ''server_url'' \<and> has_key d ''token'' \<and> \<not> has_key d ''api_configs'' \<longrightarrow>
      load_api_settings (Content (JObj d)) =
        (JObj (d @ [(''api_configs'',
           JArr [JObj [(''name'', JStr ''Default Server''),
                       (''server_url'', dict_get d ''server_url'' JNull),
                       (''token'', dict_get d ''token'' JNull)]])]),
         Content (JObj (d @ [(''api_configs'',
           JArr [JObj [(''name'', JStr ''Default Server''),
                       (''server_url'', dict_get d ''server_url'' JNull),
                       (''token'', dict_get d ''token'' JNull)]])]))))
   \<and> (has_key d ''api_configs'' \<longrightarrow>
        load_api_settings (Content (JObj d)) = (JObj d, Content (JObj d)))"
  by (simp add: load_api_settings_def old_format_dict migrate_dict save_api_settings_def
        del: py_of.simps)

theorem load_api_settings_migration_witness:
  "load_api_settings (Content (JObj [(''server_url'', JStr ''https://git.example.org''), (''token'', JStr ''abc'')])) =
     (JObj [(''server_url'', JStr ''https://git.example.org''), (''token'', JStr ''abc''),
            (''api_configs'', JArr [JObj [(''name'', JStr ''Default Server''),
               (''server_url'', JStr ''https://git.example.org''), (''token'', JStr ''abc'')]])],
      Content (JObj [(''server_url'', JStr ''https://git.example.org''), (''token'', JStr ''abc''),
            (''api_configs'', JArr [JObj [(''name'', JStr ''Default Server''),
               (''server_url'', JStr ''https://git.example.org''), (''token'', JStr ''abc'')]])]))
   \<and> load_api_settings (Content (JObj [(''api_configs'', JArr []), (''token'', JStr ''abc'')])) =
     (JObj [(''api_configs'', JArr []), (''token'', JStr ''abc'')],
      Content (JObj [(''api_configs'', JArr []), (''token'', JStr ''abc'')]))"
  using load_api_settings_migration [of "[(''server_url'', JStr ''https://git.example.org''), (''token'', JStr ''abc'')]"]
        load_api_settings_migration [of "[(''api_configs'', JArr []), (''token'', JStr ''abc'')]"]
  by (simp add: has_key_def dict_get_def)




section \<open>Properties of the configuration panel\<close>

text \<open>
  C1. The names in the store do not stay distinct. The store holds the configurations
  "A" and "B"; the user selects "A", types the name "B" and saves. \<open>save_configuration\<close>
  takes the updating branch, which replaces "A" without looking for the new name among
  the others, and the file then holds two configurations named "B".
\<close>

theorem save_configuration_duplicates_name:
  "stored_names (config_file (snd (save_configuration
      \<lparr>current_config = Some [(''name'', JStr ''A''), (''server_url'', JStr ''https://a''), (''token'', JStr ''ta'')],
       name_input = ''B'', server_input = ''https://a'', token_input = ''ta'',
       config_list = [[(''name'', JStr ''A''), (''server_url'', JStr ''https://a''), (''token'', JStr ''ta'')],
                      [(''name'', JStr ''B''), (''server_url'', JStr ''https://b''), (''token'', JStr ''tb'')]],
       status_label = NoStatus, dialogs = [],
       config_file = Content (JObj [(''api_configs'', JArr
         [JObj [(''name'', JStr ''A''), (''server_url'', JStr ''https://a''), (''token'', JStr ''ta'')],
          JObj [(''name'', JStr ''B''), (''server_url'', JStr ''https://b''), (''token'', JStr ''tb'')]])])\<rparr>)))
   = Some [JStr ''B'', JStr ''B'']"
  by (simp add: save_configuration_def load_api_settings_def old_format_def py_in_def has_key_def
        strip_def is_space_def normalise_server_def startswith_def rstrip_slash_def new_configs_def
        truthy_def update_configs_def py_get_def dict_get_def save_api_settings_def
        load_configurations_def get_api_configs_def py_iter_def on_config_selected_def
        stored_names_def Let_def del: py_of.simps)

section \<open>Properties of the repository list\<close>

text \<open>
  C7, as stated, fails: with one directory \<^verbatim>\<open>demo\<close> in the base directory,
  \<open>update_repo_json\<close> writes one record, \<open>load_repos\<close> returns it, and its only field is
  \<^verbatim>\<open>name\<close>: there is no field for a local path.
\<close>

theorem update_repo_json_name_only_counterexample:
  "load_repos (update_repo_json \<lparr>base_dir = Some [(''demo'', Directory 0)], repo_storage = Absent\<rparr>)
     = JArr [JObj [(''name'', JStr ''demo'')]]
   \<and> map record_fields (repo_records \<lparr>base_dir = Some [(''demo'', Directory 0)], repo_storage = Absent\<rparr>)
     = [[''name'']]"
  by (simp add: load_repos_def update_repo_json_def repo_records_def mkdir_base_def dir_names_def
        is_dir_def record_fields_def)

text \<open>
  C7, amended. A persisted repository record consists of the repository's name only:
  \<open>update_repo_json\<close> writes one record for each directory of the base directory, in
  order, every record has the single field \<^verbatim>\<open>name\<close>, holding the directory's name, and
  \<open>load_repos\<close> after it returns exactly these records.
\<close>

theorem update_repo_json_records:
  "repo_storage (update_repo_json d) = Content (JArr (repo_records d))
   \<and> load_repos (update_repo_json d) = JArr (repo_records d)
   \<and> repo_records d = map (\<lambda>n. JObj [(''name'', JStr n)]) (get_existing_repo_names (mkdir_base d))
   \<and> (\<forall>r \<in> set (repo_records d). record_fields r = [''name''])"
  by (auto simp: load_repos_def update_repo_json_def repo_records_def mkdir_base_def
        get_existing_repo_names_def record_fields_def split: option.splits)

theorem update_repo_json_records_witness:
  "repo_records \<lparr>base_dir = Some [(''one'', Directory 1), (''notes.txt'', NotDirectory), (''two'', Directory 2)],
                 repo_storage = Unreadable\<rparr>
     = [JObj [(''name'', JStr ''one'')], JObj [(''name'', JStr ''two'')]]
   \<and> map record_fields (repo_records \<lparr>base_dir = Some [(''one'', Directory 1), (''notes.txt'', NotDirectory), (''two'', Directory 2)],
                 repo_storage = Unreadable\<rparr>) = [[''name''], [''name'']]"
  using update_repo_json_records
    [of "\<lparr>base_dir = Some [(''one'', Directory 1), (''notes.txt'', NotDirectory), (''two'', Directory 2)],
          repo_storage = Unreadable\<rparr>"]
  by (simp add: get_existing_repo_names_def mkdir_base_def dir_names_def is_dir_def record_fields_def)

section \<open>Properties of the log thread\<close>

lemma collect_commits_eq:
  "collect_commits f steps acc =
     (case first_error steps of
        Some e \<Rightarrow> Inl e
      | None \<Rightarrow> Inr (acc @ map (commit_entry f) (yielded steps)))"
  by (induction f steps acc rule: collect_commits.induct) (simp_all split: option.splits)

lemma yielded_length: "length (yielded steps) \<le> length steps"
  by (induction steps rule: yielded.induct) simp_all

lemma yielded_take_length: "0 \<le> n \<Longrightarrow> int (length (yielded (take (nat n) steps))) \<le> n"
proof -
  assume "0 \<le> n"
  have "length (yielded (take (nat n) steps)) \<le> length (take (nat n) steps)"
    by (rule yielded_length)
  also have "\<dots> \<le> nat n" by simp
  finally show ?thesis using \<open>0 \<le> n\<close> by simp
qed

lemma last_dropWhile: "dropWhile P xs \<noteq> [] \<Longrightarrow> last (dropWhile P xs) = last xs"
  by (induction xs) (auto split: if_splits)

lemma strip_parts:
  "\<exists>pre post. s = pre @ strip s @ post \<and> list_all is_space pre \<and> list_all is_space post"
proof -
  let ?t = "dropWhile is_space s"
  have "s = takeWhile is_space s @ ?t" by simp
  moreover have "?t = rev (dropWhile is_space (rev ?t)) @ rev (takeWhile is_space (rev ?t))"
    by (metis rev_append rev_rev_ident takeWhile_dropWhile_id)
  ultimately have "s = takeWhile is_space s @ strip s @ rev (takeWhile is_space (rev ?t))"
    by (simp add: strip_def)
  moreover have "list_all is_space (takeWhile is_space s)"
    by (simp add: list_all_iff) (meson set_takeWhileD)
  moreover have "list_all is_space (rev (takeWhile is_space (rev ?t)))"
    by (simp add: list_all_iff) (meson set_takeWhileD)
  ultimately show ?thesis by blast
qed

lemma strip_ends:
  "strip s \<noteq> [] \<Longrightarrow> \<not> is_space (hd (strip s)) \<and> \<not> is_space (last (strip s))"
proof -
  let ?t = "dropWhile is_space s"
  let ?u = "dropWhile is_space (rev ?t)"
  assume "strip s \<noteq> []"
  then have u: "?u \<noteq> []" by (simp add: strip_def)
  have t: "?t \<noteq> []"
  proof
    assume "?t = []"
    then have "?u = []" by (simp only: rev.simps(1) dropWhile.simps(1))
    with u show False by simp
  qed
  have "hd (strip s) = last ?u" using u by (simp add: strip_def hd_rev)
  also have "\<dots> = last (rev ?t)" using u by (rule last_dropWhile)
  also have "\<dots> = hd ?t" using t by (simp add: last_rev)
  finally have "\<not> is_space (hd (strip s))" using t hd_dropWhile [of is_space s] by simp
  moreover have "last (strip s) = hd ?u" using u by (simp add: strip_def last_rev)
  then have "\<not> is_space (last (strip s))" using u hd_dropWhile [of is_space "rev ?t"] by simp
  ultimately show ?thesis by simp
qed

lemma run_length: "length (git_log_thread_run R f path n) = 1"
  by (simp add: git_log_thread_run_def split: sum.splits)

lemma run_no_repo: "R path = Inl e \<Longrightarrow> git_log_thread_run R f path n = [error_occurred e]"
  by (simp add: git_log_thread_run_def)

lemma run_rev_error:
  "R path = Inr repo \<Longrightarrow> rev_error repo = Some e \<Longrightarrow>
     git_log_thread_run R f path n = [error_occurred e]"
  by (simp add: git_log_thread_run_def iter_commits_max_count_def)

lemma run_iter_error:
  "R path = Inr repo \<Longrightarrow> iter_commits_max_count repo n = Inr steps \<Longrightarrow> first_error steps = Some e \<Longrightarrow>
     git_log_thread_run R f path n = [error_occurred e]"
  by (simp add: git_log_thread_run_def collect_commits_eq)

lemma run_commits:
  "R path = Inr repo \<Longrightarrow> iter_commits_max_count repo n = Inr steps \<Longrightarrow> first_error steps = None \<Longrightarrow>
     git_log_thread_run R f path n = [log_ready (map (commit_entry f) (yielded steps))]"
  by (simp add: git_log_thread_run_def collect_commits_eq)

lemma iter_steps:
  "iter_commits_max_count repo n = Inr steps \<Longrightarrow>
     steps = (if n < 0 then history repo else take (nat n) (history repo))"
  by (auto simp: iter_commits_max_count_def split: option.splits)

lemma commit_entry_fields:
  "hash (commit_entry f c) = take 8 (hexsha c)"
  "message (commit_entry f c) = strip (commit_message c)"
  "author (commit_entry f c) = author_name c"
  "date (commit_entry f c) = f (committed_datetime c)"
  "full_hash (commit_entry f c) = hexsha c"
  by (simp_all add: commit_entry_def)


text \<open>
  C8, as stated, fails: the number of commits is not a bound when it is negative. The
  user types \<^verbatim>\<open>-1\<close> in the field of the panel; \<open>refresh_git_log\<close> passes \<^verbatim>\<open>int("-1")\<close> to the
  thread, \<^verbatim>\<open>iter_commits(max_count=-1)\<close> lists the whole history, and \<open>log_ready\<close> carries
  two records, which is more than \<open>max_commits\<close>.
\<close>

theorem git_log_thread_run_negative_limit_counterexample:
  "git_log_thread_run
      (\<lambda>p. Inr \<lparr>rev_error = None, history = [Inr \<lparr>hexsha = ''0123456789abcdef'', commit_message = CHR 0x09 # '' fix it'' @ [CHR 0x0A, CHR 0xA0], author_name = ''ann'', committed_datetime = ''2024-01-02 03:04''\<rparr>,
        Inr \<lparr>hexsha = ''fedcba9876543210'', commit_message = ''init'' @ [CHR 0x0A], author_name = ''bob'', committed_datetime = ''2024-01-01 00:00''\<rparr>]\<rparr>)
      (\<lambda>d. d) ''/repo'' (- 1)
     = [log_ready
          [\<lparr>hash = ''01234567'', message = ''fix it'', author = ''ann'', date = ''2024-01-02 03:04'', full_hash = ''0123456789abcdef''\<rparr>,
           \<lparr>hash = ''fedcba98'', message = ''init'', author = ''bob'', date = ''2024-01-01 00:00'', full_hash = ''fedcba9876543210''\<rparr>]]
   \<and> \<not> int (length
          [\<lparr>hash = ''01234567'', message = ''fix it'', author = ''ann'', date = ''2024-01-02 03:04'', full_hash = ''0123456789abcdef''\<rparr>,
           \<lparr>hash = ''fedcba98'', message = ''init'', author = ''bob'', date = ''2024-01-01 00:00'', full_hash = ''fedcba9876543210''\<rparr>]) \<le> - 1"
  by (simp add: git_log_thread_run_def iter_commits_max_count_def commit_entry_def strip_def
        is_space_def)

text \<open>
  C8, amended. Every run of the log thread emits exactly one signal. When opening the
  repository raises, when \<open>iter_commits\<close> raises, or when a step of the iteration raises,
  the signal is \<open>error_occurred\<close> with the text of that exception. Otherwise it is
  \<open>log_ready\<close> with one record for each commit the iteration yields, in the order of the
  iteration. When \<open>max_commits\<close> is zero or more, the iteration covers the first
  \<open>max_commits\<close> steps of the history and the list has at most \<open>max_commits\<close> records; when
  \<open>max_commits\<close> is negative, the iteration covers the whole history. A record holds the
  first eight characters of the commit's hash (eight characters when the hash has that
  many), the author's name, the formatted date, the full hash, and the message without
  its leading and trailing whitespace: the commit's message is the record's message
  between two runs of whitespace, and the record's message, when it is not empty, neither
  begins nor ends with whitespace.
\<close>

theorem git_log_thread_run_one_signal:
  "length (git_log_thread_run R (f :: 'd \<Rightarrow> string) path n) = 1
   \<and> (\<forall>e. R path = Inl e \<longrightarrow> git_log_thread_run R f path n = [error_occurred e])
   \<and> (\<forall>repo e. R path = Inr repo \<and> rev_error repo = Some e \<longrightarrow>
          git_log_thread_run R f path n = [error_occurred e])
   \<and> (\<forall>repo steps e. R path = Inr repo \<and> iter_commits_max_count repo n = Inr steps
            \<and> first_error steps = Some e \<longrightarrow>
          git_log_thread_run R f path n = [error_occurred e])
   \<and> (\<forall>repo steps. R path = Inr repo \<and> iter_commits_max_count repo n = Inr steps
            \<and> first_error steps = None \<longrightarrow>
          git_log_thread_run R f path n = [log_ready (map (commit_entry f) (yielded steps))]
          \<and> (0 \<le> n \<longrightarrow> steps = take (nat n) (history repo))
          \<and> (0 \<le> n \<longrightarrow> int (length (map (commit_entry f) (yielded steps))) \<le> n)
          \<and> (n < 0 \<longrightarrow> steps = history repo))
   \<and> (\<forall>c. hash (commit_entry f c) = take 8 (hexsha c)
          \<and> author (commit_entry f c) = author_name c
          \<and> date (commit_entry f c) = f (committed_datetime c)
          \<and> full_hash (commit_entry f c) = hexsha c
          \<and> (8 \<le> length (hexsha c) \<longrightarrow> length (hash (commit_entry f c)) = 8)
          \<and> (\<exists>pre post. commit_message c = pre @ message (commit_entry f c) @ post
                 \<and> list_all is_space pre \<and> list_all is_space post)
          \<and> (message (commit_entry f c) \<noteq> [] \<longrightarrow>
                 \<not> is_space (hd (message (commit_entry f c)))
                 \<and> \<not> is_space (last (message (commit_entry f c)))))"
  apply (intro conjI allI impI)
  subgoal by (rule run_length)
  subgoal by (rule run_no_repo)
  subgoal by (auto intro: run_rev_error)
  subgoal by (auto intro: run_iter_error)
  subgoal by (auto intro: run_commits)
  subgoal by (auto dest: iter_steps)
  subgoal by (auto dest!: iter_steps simp: yielded_take_length)
  subgoal by (auto dest: iter_steps)
  subgoal by (simp add: commit_entry_fields)
  subgoal by (simp add: commit_entry_fields)
  subgoal by (simp add: commit_entry_fields)
  subgoal by (simp add: commit_entry_fields)
  subgoal by (simp add: commit_entry_fields)
  subgoal for c using strip_parts [of "commit_message c"] by (simp add: commit_entry_fields)
  subgoal for c using strip_ends [of "commit_message c"] by (simp add: commit_entry_fields)
  subgoal for c using strip_ends [of "commit_message c"] by (simp add: commit_entry_fields)
  done

theorem git_log_thread_run_one_signal_witness:
  "git_log_thread_run
      (\<lambda>p. Inr \<lparr>rev_error = None, history = [Inr \<lparr>hexsha = ''0123456789abcdef'', commit_message = CHR 0x09 # '' fix it'' @ [CHR 0x0A, CHR 0xA0], author_name = ''ann'', committed_datetime = ''2024-01-02 03:04''\<rparr>,
        Inr \<lparr>hexsha = ''fedcba9876543210'', commit_message = ''init'' @ [CHR 0x0A], author_name = ''bob'', committed_datetime = ''2024-01-01 00:00''\<rparr>]\<rparr>)
      (\<lambda>d. d) ''/repo'' 1
     = [log_ready
          [\<lparr>hash = ''01234567'', message = ''fix it'', author = ''ann'', date = ''2024-01-02 03:04'', full_hash = ''0123456789abcdef''\<rparr>]]
   \<and> git_log_thread_run (\<lambda>p. Inl ''no repository'') (\<lambda>d. d) ''/repo'' 1
     = [error_occurred ''no repository'']
   \<and> git_log_thread_run
        (\<lambda>p. Inr \<lparr>rev_error = None, history = [Inr \<lparr>hexsha = ''0123456789abcdef'', commit_message = CHR 0x09 # '' fix it'' @ [CHR 0x0A, CHR 0xA0], author_name = ''ann'', committed_datetime = ''2024-01-02 03:04''\<rparr>,
        Inl ''bad object'']\<rparr>)
        (\<lambda>d. d) ''/repo'' 2
     = [error_occurred ''bad object'']"
  using git_log_thread_run_one_signal
      [of "\<lambda>p. Inr \<lparr>rev_error = None, history = [Inr \<lparr>hexsha = ''0123456789abcdef'', commit_message = CHR 0x09 # '' fix it'' @ [CHR 0x0A, CHR 0xA0], author_name = ''ann'', committed_datetime = ''2024-01-02 03:04''\<rparr>,
        Inr \<lparr>hexsha = ''fedcba9876543210'', commit_message = ''init'' @ [CHR 0x0A], author_name = ''bob'', committed_datetime = ''2024-01-01 00:00''\<rparr>]\<rparr>"
          "\<lambda>d. d" "''/repo''" 1]
    git_log_thread_run_one_signal [of "\<lambda>p. Inl ''no repository''" "\<lambda>d. d" "''/repo''" 1]
    git_log_thread_run_one_signal
      [of "\<lambda>p. Inr \<lparr>rev_error = None, history = [Inr \<lparr>hexsha = ''0123456789abcdef'', commit_message = CHR 0x09 # '' fix it'' @ [CHR 0x0A, CHR 0xA0], author_name = ''ann'', committed_datetime = ''2024-01-02 03:04''\<rparr>,
        Inl ''bad object'']\<rparr>"
          "\<lambda>d. d" "''/repo''" 2]
  by (simp add: iter_commits_max_count_def commit_entry_def strip_def is_space_def)

section \<open>Properties of reverting a commit\<close>

lemma startswith_map: "startswith s p \<Longrightarrow> startswith (map f s) (map f p)"
  by (auto simp: startswith_def take_map)

lemma contains_map: "contains s p \<Longrightarrow> contains (map f s) (map f p)"
proof (induction s)
  case Nil
  then show ?case by simp
next
  case (Cons c s)
  then show ?case using startswith_map [of "c # s" p f] by auto
qed

lemma is_conflict_lower: "is_conflict em = contains (lower em) ''conflict''"
proof -
  have "lower ''CONFLICT'' = ''conflict''"
    by code_simp
  then have "contains em ''CONFLICT'' \<Longrightarrow> contains (lower em) ''conflict''"
    using contains_map [of em "''CONFLICT''" lower_char] by (simp add: lower_def)
  then show ?thesis by (auto simp: is_conflict_def)
qed

lemma git_commands_append: "git_commands (a @ b) = git_commands a @ git_commands b"
  by (induction a rule: git_commands.induct) simp_all

lemma emit_fields:
  "trace (emit ev p) = trace p @ [ev]"
  "git_repo (emit ev p) = git_repo p"
  "repo_path (emit ev p) = repo_path p"
  "max_commits_input (emit ev p) = max_commits_input p"
  by (simp_all add: emit_def)

lemma refresh_git_log_events:
  "\<exists>evs. trace (refresh_git_log w p) = trace p @ evs \<and> git_commands evs = []
         \<and> Choice t \<notin> set evs \<and> Warning ''Error'' (''Error reverting commit: '' @ m) \<notin> set evs"
  by (simp add: refresh_git_log_def show_error_def emit_fields split: option.splits)

lemma refresh_git_log_repo: "git_repo (refresh_git_log w p) = git_repo p"
  by (simp add: refresh_git_log_def show_error_def emit_fields split: option.splits)

lemma refresh_git_status_events:
  "git_repo p \<Longrightarrow>
     \<exists>evs. trace (refresh_git_status w p) = trace p @ evs
         \<and> git_commands evs = [[''status'', ''--porcelain'']]
         \<and> Choice t \<notin> set evs \<and> Warning ''Error'' (''Error reverting commit: '' @ m) \<notin> set evs"
  by (simp add: refresh_git_status_def panel_git_def show_error_def emit_fields split: sum.splits)

lemma refreshed_events:
  assumes "git_repo p"
  shows "\<exists>evs. trace (show_success s (refresh_git_status w (refresh_git_log w p))) = trace p @ evs
         \<and> git_commands evs = [[''status'', ''--porcelain'']]
         \<and> Choice t \<notin> set evs \<and> Warning ''Error'' (''Error reverting commit: '' @ m) \<notin> set evs"
proof -
  obtain e1 where e1: "trace (refresh_git_log w p) = trace p @ e1" "git_commands e1 = []"
      "Choice t \<notin> set e1" "Warning ''Error'' (''Error reverting commit: '' @ m) \<notin> set e1"
    using refresh_git_log_events [of w p t m] by blast
  have "git_repo (refresh_git_log w p)" using assms by (simp add: refresh_git_log_repo)
  then obtain e2 where e2: "trace (refresh_git_status w (refresh_git_log w p)) = trace (refresh_git_log w p) @ e2"
      "git_commands e2 = [[''status'', ''--porcelain'']]"
      "Choice t \<notin> set e2" "Warning ''Error'' (''Error reverting commit: '' @ m) \<notin> set e2"
    using refresh_git_status_events [of "refresh_git_log w p" w t m] by blast
  have "trace (show_success s (refresh_git_status w (refresh_git_log w p)))
          = trace p @ (e1 @ e2 @ [Information ''Success'' s])"
    using e1(1) e2(1) by (simp add: show_success_def emit_fields)
  moreover have "git_commands (e1 @ e2 @ [Information ''Success'' s]) = [[''status'', ''--porcelain'']]"
    using e1(2) e2(2) by (simp add: git_commands_append)
  moreover have "Choice t \<notin> set (e1 @ e2 @ [Information ''Success'' s])"
    using e1(3) e2(3) by simp
  moreover have "Warning ''Error'' (''Error reverting commit: '' @ m) \<notin> set (e1 @ e2 @ [Information ''Success'' s])"
    using e1(4) e2(4) by simp
  ultimately show ?thesis by blast
qed


lemma after_command_events:
  assumes "git_repo q"
  shows "\<exists>evs. trace ((show_success s (refresh_git_status w (refresh_git_log w
                      (emit (Output out) (emit (Git args) q)))))\<lparr>continue_revert_visible := False\<rparr>)
                  = trace q @ evs
         \<and> git_commands evs = [args, [''status'', ''--porcelain'']]
         \<and> Choice t \<notin> set evs \<and> Warning ''Error'' (''Error reverting commit: '' @ m) \<notin> set evs"
proof -
  let ?q2 = "emit (Output out) (emit (Git args) q)"
  have "git_repo ?q2" using assms by (simp add: emit_fields)
  then obtain evs where evs: "trace (show_success s (refresh_git_status w (refresh_git_log w ?q2))) = trace ?q2 @ evs"
      "git_commands evs = [[''status'', ''--porcelain'']]"
      "Choice t \<notin> set evs" "Warning ''Error'' (''Error reverting commit: '' @ m) \<notin> set evs"
    using refreshed_events [of ?q2 s w t m] by blast
  have "trace ((show_success s (refresh_git_status w (refresh_git_log w ?q2)))\<lparr>continue_revert_visible := False\<rparr>)
          = trace q @ ([Git args, Output out] @ evs)"
    using evs(1) by (simp add: emit_fields)
  moreover have "git_commands ([Git args, Output out] @ evs) = [args, [''status'', ''--porcelain'']]"
    using evs(2) by (simp add: git_commands_append)
  moreover have "Choice t \<notin> set ([Git args, Output out] @ evs)" using evs(3) by simp
  moreover have "Warning ''Error'' (''Error reverting commit: '' @ m) \<notin> set ([Git args, Output out] @ evs)"
    using evs(4) by simp
  ultimately show ?thesis by blast
qed

lemma skip_revert_events:
  assumes "git_repo q"
  shows "\<exists>evs. trace (skip_revert w q) = trace q @ evs
         \<and> git_commands evs =
             (case git_result w (trace q) [''revert'', ''--skip''] of
                Inl e \<Rightarrow> [[''revert'', ''--skip'']]
              | Inr r \<Rightarrow> [[''revert'', ''--skip''], [''status'', ''--porcelain'']])
         \<and> Choice t \<notin> set evs \<and> Warning ''Error'' (''Error reverting commit: '' @ m) \<notin> set evs"
proof (cases "git_result w (trace q) [''revert'', ''--skip'']")
  case (Inl e)
  then show ?thesis using assms
    by (simp add: skip_revert_def panel_git_def show_error_def emit_fields)
next
  case (Inr r)
  then show ?thesis
    using assms after_command_events [OF assms, of "''Revert operation skipped''" w "''Revert operation skipped''" "[''revert'', ''--skip'']" t m]
    by (simp add: skip_revert_def panel_git_def)
qed

lemma abort_revert_events:
  assumes "git_repo q"
  shows "\<exists>evs. trace (abort_revert w q) = trace q @ evs
         \<and> git_commands evs =
             (case git_result w (trace q) [''revert'', ''--abort''] of
                Inl e \<Rightarrow> [[''revert'', ''--abort'']]
              | Inr r \<Rightarrow> [[''revert'', ''--abort''], [''status'', ''--porcelain'']])
         \<and> Choice t \<notin> set evs \<and> Warning ''Error'' (''Error reverting commit: '' @ m) \<notin> set evs"
proof (cases "git_result w (trace q) [''revert'', ''--abort'']")
  case (Inl e)
  then show ?thesis using assms
    by (simp add: abort_revert_def panel_git_def show_error_def emit_fields)
next
  case (Inr r)
  then show ?thesis
    using assms after_command_events [OF assms, of "''Revert operation aborted''" w "''Revert operation aborted''" "[''revert'', ''--abort'']" t m]
    by (simp add: abort_revert_def panel_git_def)
qed

lemma continue_revert_commands:
  assumes "git_repo q"
  shows "git_commands (trace (continue_revert w q)) = git_commands (trace q) @
          (case git_result w (trace q) [''add'', ''.''] of
             Inl e \<Rightarrow> [[''add'', ''.'']]
           | Inr r \<Rightarrow>
               (case git_result w (trace q @ [Git [''add'', ''.''], Output ''Resolved files added to staging area''])
                       [''revert'', ''--continue''] of
                  Inl e \<Rightarrow> [[''add'', ''.''], [''revert'', ''--continue'']]
                | Inr res \<Rightarrow> [[''add'', ''.''], [''revert'', ''--continue''], [''status'', ''--porcelain'']]))"
proof (cases "git_result w (trace q) [''add'', ''.'']")
  case (Inl e)
  then show ?thesis using assms
    by (simp add: continue_revert_def continue_failed_def panel_git_def show_error_def emit_fields
          git_commands_append)
next
  case add: (Inr r)
  let ?q1 = "emit (Output ''Resolved files added to staging area'') (emit (Git [''add'', ''.'']) q)"
  have q1: "git_repo ?q1" "trace ?q1 = trace q @ [Git [''add'', ''.''], Output ''Resolved files added to staging area'']"
    using assms by (simp_all add: emit_fields)
  show ?thesis
  proof (cases "git_result w (trace ?q1) [''revert'', ''--continue'']")
    case (Inl e)
    then show ?thesis using add assms
      by (simp add: continue_revert_def continue_failed_def panel_git_def show_error_def emit_fields
            git_commands_append)
  next
    case (Inr res)
    obtain evs where evs: "trace ((show_success ''Revert completed successfully after resolving conflicts''
           (refresh_git_status w (refresh_git_log w
              (emit (Output (''Revert completed: '' @ res)) (emit (Git [''revert'', ''--continue'']) ?q1)))))
             \<lparr>continue_revert_visible := False\<rparr>) = trace ?q1 @ evs"
        "git_commands evs = [[''revert'', ''--continue''], [''status'', ''--porcelain'']]"
      using after_command_events [OF q1(1), of _ w _ "[''revert'', ''--continue'']" "[]" "[]"] by blast
    have "continue_revert w q = (show_success ''Revert completed successfully after resolving conflicts''
           (refresh_git_status w (refresh_git_log w
              (emit (Output (''Revert completed: '' @ res)) (emit (Git [''revert'', ''--continue'']) ?q1)))))
             \<lparr>continue_revert_visible := False\<rparr>"
      using add Inr assms by (simp add: continue_revert_def panel_git_def emit_fields)
    then have "trace (continue_revert w q) = trace ?q1 @ evs" using evs(1) by simp
    then show ?thesis using add Inr evs(2) q1(2) by (simp add: git_commands_append)
  qed
qed

text \<open>
  C3. \<open>revert_commit\<close> has run \<^verbatim>\<open>git revert <hash> --no-edit\<close> after the user's Yes, and the
  command has raised with the text \<open>em\<close>. The test of the code for a conflict is the same
  as: \<open>em\<close> in lower case contains \<^verbatim>\<open>conflict\<close>.

  Without it, the operation ends with the warning box "Error" showing
  "Error reverting commit: " and \<open>em\<close>; no other box appears and no other command runs.

  With it, the box "Revert Conflict" with its choices appears right after the failed
  command, and the warning "Error reverting commit: ..." does not appear at all. The
  commands that follow depend on the choice. The first button (resolve) runs none and
  makes the button "Continue Revert" visible; the second (skip) runs
  \<^verbatim>\<open>git revert --skip\<close>; the third (abort) runs \<^verbatim>\<open>git revert --abort\<close>; any other way of
  closing the box runs none. After a skip or an abort that succeeds, the status list is
  refreshed with \<^verbatim>\<open>git status --porcelain\<close>.

  \<open>continue_revert\<close>, behind the button "Continue Revert", runs \<^verbatim>\<open>git add .\<close> and, when that
  succeeds, \<^verbatim>\<open>git revert --continue\<close>, and when that succeeds too, the refresh of the status
  list.
\<close>

theorem revert_commit_conflict_recovery:
  assumes "strip (commit_hash_input p) = h" and "h \<noteq> []"
    and "clicked w (trace p @ [Question ''Revert Commit'']) = Yes"
    and "git_repo p"
    and "git_result w (trace p @ [Question ''Revert Commit'']) [''revert'', h, ''--no-edit''] = Inl em"
  shows "(is_conflict em \<longleftrightarrow> contains (lower em) ''conflict'')
    \<and> (\<not> contains (lower em) ''conflict'' \<longrightarrow>
         trace (revert_commit w p) =
           trace p @ [Question ''Revert Commit'', Git [''revert'', h, ''--no-edit''],
                      Output (''Revert failed: '' @ em),
                      Warning ''Error'' (''Error reverting commit: '' @ em)])
    \<and> (contains (lower em) ''conflict'' \<longrightarrow>
         take (length (trace p) + 5) (trace (revert_commit w p)) =
           trace p @ [Question ''Revert Commit'', Git [''revert'', h, ''--no-edit''],
                      Output (''Revert failed: '' @ em),
                      Output ''MERGE CONFLICT DETECTED'', Choice ''Revert Conflict'']
         \<and> Warning ''Error'' (''Error reverting commit: '' @ em)
              \<notin> set (drop (length (trace p)) (trace (revert_commit w p)))
         \<and> git_commands (trace (revert_commit w p)) =
             git_commands (trace p) @ [[''revert'', h, ''--no-edit'']] @
             (case clicked w (trace p @ [Question ''Revert Commit'', Git [''revert'', h, ''--no-edit''],
                      Output (''Revert failed: '' @ em),
                      Output ''MERGE CONFLICT DETECTED'', Choice ''Revert Conflict'']) of
                Second \<Rightarrow>
                  (case git_result w (trace p @ [Question ''Revert Commit'', Git [''revert'', h, ''--no-edit''],
                      Output (''Revert failed: '' @ em),
                      Output ''MERGE CONFLICT DETECTED'', Choice ''Revert Conflict'']) [''revert'', ''--skip''] of
                     Inl e \<Rightarrow> [[''revert'', ''--skip'']]
                   | Inr r \<Rightarrow> [[''revert'', ''--skip''], [''status'', ''--porcelain'']])
              | Third \<Rightarrow>
                  (case git_result w (trace p @ [Question ''Revert Commit'', Git [''revert'', h, ''--no-edit''],
                      Output (''Revert failed: '' @ em),
                      Output ''MERGE CONFLICT DETECTED'', Choice ''Revert Conflict'']) [''revert'', ''--abort''] of
                     Inl e \<Rightarrow> [[''revert'', ''--abort'']]
                   | Inr r \<Rightarrow> [[''revert'', ''--abort''], [''status'', ''--porcelain'']])
              | _ \<Rightarrow> [])
         \<and> (clicked w (trace p @ [Question ''Revert Commit'', Git [''revert'', h, ''--no-edit''],
                      Output (''Revert failed: '' @ em),
                      Output ''MERGE CONFLICT DETECTED'', Choice ''Revert Conflict'']) = First \<longrightarrow>
              continue_revert_visible (revert_commit w p)))
    \<and> (\<forall>q. git_repo q \<longrightarrow>
          git_commands (trace (continue_revert w q)) = git_commands (trace q) @
            (case git_result w (trace q) [''add'', ''.''] of
               Inl e \<Rightarrow> [[''add'', ''.'']]
             | Inr r \<Rightarrow>
                 (case git_result w (trace q @ [Git [''add'', ''.''], Output ''Resolved files added to staging area''])
                         [''revert'', ''--continue''] of
                    Inl e \<Rightarrow> [[''add'', ''.''], [''revert'', ''--continue'']]
                  | Inr res \<Rightarrow> [[''add'', ''.''], [''revert'', ''--continue''], [''status'', ''--porcelain'']])))"
proof -
  define p3 where "p3 = emit (Output (''Revert failed: '' @ em))
     (emit (Git [''revert'', h, ''--no-edit'']) (emit (Question ''Revert Commit'') p))"
  define p4 where "p4 = emit (Choice ''Revert Conflict'') (emit (Output ''MERGE CONFLICT DETECTED'') p3)"
  let ?plain = "Warning ''Error'' (''Error reverting commit: '' @ em)"
  have tr3: "trace p3 = trace p @ [Question ''Revert Commit'', Git [''revert'', h, ''--no-edit''],
                      Output (''Revert failed: '' @ em)]"
    by (simp add: p3_def emit_fields)
  have tr4: "trace p4 = trace p @ [Question ''Revert Commit'', Git [''revert'', h, ''--no-edit''],
                      Output (''Revert failed: '' @ em),
                      Output ''MERGE CONFLICT DETECTED'', Choice ''Revert Conflict'']"
    by (simp add: p4_def emit_fields tr3)
  have g4: "git_repo p4" using assms(4) by (simp add: p4_def p3_def emit_fields)
  have rc: "revert_commit w p =
      (if is_conflict em then handle_revert_conflict w h p3
       else show_error (''Error reverting commit: '' @ em) p3)"
    using assms by (simp add: revert_commit_def panel_git_def emit_fields p3_def Let_def)
  have hc: "handle_revert_conflict w h p3 =
      (case clicked w (trace p4) of First \<Rightarrow> resolve_revert_conflicts p4
       | Second \<Rightarrow> skip_revert w p4 | Third \<Rightarrow> abort_revert w p4 | _ \<Rightarrow> p4)"
    unfolding handle_revert_conflict_def p4_def Let_def by (rule refl)
  have ex: "\<exists>evs. trace (handle_revert_conflict w h p3) = trace p4 @ evs
      \<and> git_commands evs =
          (case clicked w (trace p4) of
             Second \<Rightarrow> (case git_result w (trace p4) [''revert'', ''--skip''] of
                     Inl e \<Rightarrow> [[''revert'', ''--skip'']]
                   | Inr r \<Rightarrow> [[''revert'', ''--skip''], [''status'', ''--porcelain'']])
           | Third \<Rightarrow> (case git_result w (trace p4) [''revert'', ''--abort''] of
                     Inl e \<Rightarrow> [[''revert'', ''--abort'']]
                   | Inr r \<Rightarrow> [[''revert'', ''--abort''], [''status'', ''--porcelain'']])
           | _ \<Rightarrow> [])
      \<and> ?plain \<notin> set evs
      \<and> (clicked w (trace p4) = First \<longrightarrow> continue_revert_visible (handle_revert_conflict w h p3))"
  proof (cases "clicked w (trace p4)")
    case First
    then show ?thesis by (simp add: hc resolve_revert_conflicts_def emit_fields emit_def)
  next
    case Second
    obtain evs where "trace (skip_revert w p4) = trace p4 @ evs"
        "git_commands evs =
           (case git_result w (trace p4) [''revert'', ''--skip''] of
              Inl e \<Rightarrow> [[''revert'', ''--skip'']]
            | Inr r \<Rightarrow> [[''revert'', ''--skip''], [''status'', ''--porcelain'']])"
        "?plain \<notin> set evs"
      using skip_revert_events [OF g4, of w "[]" em] by blast
    then show ?thesis using Second by (intro exI [of _ evs]) (simp add: hc)
  next
    case Third
    obtain evs where "trace (abort_revert w p4) = trace p4 @ evs"
        "git_commands evs =
           (case git_result w (trace p4) [''revert'', ''--abort''] of
              Inl e \<Rightarrow> [[''revert'', ''--abort'']]
            | Inr r \<Rightarrow> [[''revert'', ''--abort''], [''status'', ''--porcelain'']])"
        "?plain \<notin> set evs"
      using abort_revert_events [OF g4, of w "[]" em] by blast
    then show ?thesis using Third by (intro exI [of _ evs]) (simp add: hc)
  qed (simp_all add: hc)
  then obtain evs where evs: "trace (handle_revert_conflict w h p3) = trace p4 @ evs"
      "git_commands evs =
          (case clicked w (trace p4) of
             Second \<Rightarrow> (case git_result w (trace p4) [''revert'', ''--skip''] of
                     Inl e \<Rightarrow> [[''revert'', ''--skip'']]
                   | Inr r \<Rightarrow> [[''revert'', ''--skip''], [''status'', ''--porcelain'']])
           | Third \<Rightarrow> (case git_result w (trace p4) [''revert'', ''--abort''] of
                     Inl e \<Rightarrow> [[''revert'', ''--abort'']]
                   | Inr r \<Rightarrow> [[''revert'', ''--abort''], [''status'', ''--porcelain'']])
           | _ \<Rightarrow> [])"
      "?plain \<notin> set evs"
      "clicked w (trace p4) = First \<longrightarrow> continue_revert_visible (handle_revert_conflict w h p3)"
    by blast
  have c1: "is_conflict em \<longleftrightarrow> contains (lower em) ''conflict''" by (rule is_conflict_lower)
  have c2: "\<not> contains (lower em) ''conflict'' \<Longrightarrow>
         trace (revert_commit w p) = trace p @ [Question ''Revert Commit'', Git [''revert'', h, ''--no-edit''],
                      Output (''Revert failed: '' @ em), ?plain]"
    using c1 by (simp add: rc show_error_def emit_fields tr3)
  have tr: "contains (lower em) ''conflict'' \<Longrightarrow> trace (revert_commit w p) = trace p4 @ evs"
    using c1 evs(1) by (simp add: rc)
  have c3: "contains (lower em) ''conflict'' \<Longrightarrow>
      take (length (trace p) + 5) (trace (revert_commit w p)) = trace p4"
    using tr by (simp add: tr4)
  have c4: "contains (lower em) ''conflict'' \<Longrightarrow>
      ?plain \<notin> set (drop (length (trace p)) (trace (revert_commit w p)))"
    using tr evs(3) by (simp add: tr4)
  have c5: "contains (lower em) ''conflict'' \<Longrightarrow>
      git_commands (trace (revert_commit w p)) =
        git_commands (trace p) @ [[''revert'', h, ''--no-edit'']] @ git_commands evs"
    using tr by (simp add: tr4 git_commands_append)
  have c6: "contains (lower em) ''conflict'' \<Longrightarrow> clicked w (trace p4) = First \<Longrightarrow>
      continue_revert_visible (revert_commit w p)"
    using c1 evs(4) by (simp add: rc)
  have c7: "\<forall>q. git_repo q \<longrightarrow>
          git_commands (trace (continue_revert w q)) = git_commands (trace q) @
            (case git_result w (trace q) [''add'', ''.''] of
               Inl e \<Rightarrow> [[''add'', ''.'']]
             | Inr r \<Rightarrow>
                 (case git_result w (trace q @ [Git [''add'', ''.''], Output ''Resolved files added to staging area''])
                         [''revert'', ''--continue''] of
                    Inl e \<Rightarrow> [[''add'', ''.''], [''revert'', ''--continue'']]
                  | Inr res \<Rightarrow> [[''add'', ''.''], [''revert'', ''--continue''], [''status'', ''--porcelain'']]))"
    using continue_revert_commands by blast
  show ?thesis
    unfolding tr4 [symmetric]
    using c1 c2 c3 c4 c5 c6 c7 evs(2) by (intro conjI impI) simp_all
qed

theorem revert_commit_conflict_recovery_witness:
  "git_commands (trace (revert_commit
      \<lparr>git_result = (\<lambda>tr args. if args = [''revert'', ''abc1234'', ''--no-edit'']
                                  then Inl ''CONFLICT (content): a.txt'' else Inr []),
       commits_result = (\<lambda>tr r. Inr 0),
       clicked = (\<lambda>tr. if last tr = Question ''Revert Commit'' then Yes else Third),
       head_state = (\<lambda>tr. Detached), int_of = (\<lambda>s. Some 50),
       detached_head = (\<lambda>tr. []), repo_error = None\<rparr>
      \<lparr>repo_path = ''/r'', git_repo = True, commit_hash_input = '' abc1234 '',
       max_commits_input = ''50'', continue_revert_visible = False, trace = []\<rparr>))
     = [[''revert'', ''abc1234'', ''--no-edit''], [''revert'', ''--abort''], [''status'', ''--porcelain'']]
   \<and> take 5 (trace (revert_commit
      \<lparr>git_result = (\<lambda>tr args. if args = [''revert'', ''abc1234'', ''--no-edit'']
                                  then Inl ''CONFLICT (content): a.txt'' else Inr []),
       commits_result = (\<lambda>tr r. Inr 0),
       clicked = (\<lambda>tr. if last tr = Question ''Revert Commit'' then Yes else Third),
       head_state = (\<lambda>tr. Detached), int_of = (\<lambda>s. Some 50),
       detached_head = (\<lambda>tr. []), repo_error = None\<rparr>
      \<lparr>repo_path = ''/r'', git_repo = True, commit_hash_input = '' abc1234 '',
       max_commits_input = ''50'', continue_revert_visible = False, trace = []\<rparr>))
     = [Question ''Revert Commit'', Git [''revert'', ''abc1234'', ''--no-edit''],
        Output ''Revert failed: CONFLICT (content): a.txt'',
        Output ''MERGE CONFLICT DETECTED'', Choice ''Revert Conflict'']
   \<and> trace (revert_commit
      \<lparr>git_result = (\<lambda>tr args. Inl ''bad revision''),
       commits_result = (\<lambda>tr r. Inr 0),
       clicked = (\<lambda>tr. Yes),
       head_state = (\<lambda>tr. Detached), int_of = (\<lambda>s. Some 50),
       detached_head = (\<lambda>tr. []), repo_error = None\<rparr>
      \<lparr>repo_path = ''/r'', git_repo = True, commit_hash_input = '' abc1234 '',
       max_commits_input = ''50'', continue_revert_visible = False, trace = []\<rparr>)
     = [Question ''Revert Commit'', Git [''revert'', ''abc1234'', ''--no-edit''],
        Output ''Revert failed: bad revision'',
        Warning ''Error'' ''Error reverting commit: bad revision'']"
proof -
  have l: "lower ''CONFLICT (content): a.txt'' = ''conflict (content): a.txt''"
    "lower ''bad revision'' = ''bad revision''"
    by code_simp+
  show ?thesis
    using revert_commit_conflict_recovery
      [of "\<lparr>repo_path = ''/r'', git_repo = True, commit_hash_input = '' abc1234 '',
       max_commits_input = ''50'', continue_revert_visible = False, trace = []\<rparr>"
          "''abc1234''"
          "\<lparr>git_result = (\<lambda>tr args. if args = [''revert'', ''abc1234'', ''--no-edit'']
                                  then Inl ''CONFLICT (content): a.txt'' else Inr []),
       commits_result = (\<lambda>tr r. Inr 0),
       clicked = (\<lambda>tr. if last tr = Question ''Revert Commit'' then Yes else Third),
       head_state = (\<lambda>tr. Detached), int_of = (\<lambda>s. Some 50),
       detached_head = (\<lambda>tr. []), repo_error = None\<rparr>"
          "''CONFLICT (content): a.txt''"]
      revert_commit_conflict_recovery
      [of "\<lparr>repo_path = ''/r'', git_repo = True, commit_hash_input = '' abc1234 '',
       max_commits_input = ''50'', continue_revert_visible = False, trace = []\<rparr>"
          "''abc1234''"
          "\<lparr>git_result = (\<lambda>tr args. Inl ''bad revision''),
       commits_result = (\<lambda>tr r. Inr 0),
       clicked = (\<lambda>tr. Yes),
       head_state = (\<lambda>tr. Detached), int_of = (\<lambda>s. Some 50),
       detached_head = (\<lambda>tr. []), repo_error = None\<rparr>"
          "''bad revision''"]
    by (simp add: l strip_def is_space_def startswith_def)
qed

end
